theory Spec2Isabelle
  imports Main "HOL-Library.Product_Lexorder" "HOL-Library.Finite_Map"
begin

section \<open>Python values used by the builder\<close>

text \<open>
  Exceptions of the source are values: every \<open>raise\<close> is a branch returning \<open>Inl\<close>
  of the exception, carrying the message the source formats.
\<close>

datatype error =
    AssertionError string
  | ValueError string
  | RuntimeError string
  | FileNotFoundError string
  | IOError string
  | AttributeError string

text \<open>\<open>str(n)\<close> of a non-negative Python integer: its decimal digits.\<close>

fun str_of_nat :: "nat \<Rightarrow> string" where
  "str_of_nat n =
     (if n < 10 then [''0123456789'' ! n]
      else str_of_nat (n div 10) @ [''0123456789'' ! (n mod 10)])"

declare str_of_nat.simps [simp del]

text \<open>\<open>sep.join(xs)\<close>.\<close>

fun join_str :: "string \<Rightarrow> string list \<Rightarrow> string" where
  "join_str sep [] = []"
| "join_str sep [x] = x"
| "join_str sep (x # y # ys) = x @ sep @ join_str sep (y # ys)"

text \<open>\<open>s.split(c)\<close> for a one-character separator.\<close>

fun split_on :: "char \<Rightarrow> string \<Rightarrow> string list" where
  "split_on c [] = [[]]"
| "split_on c (x # xs) =
     (if x = c then [] # split_on c xs
      else (case split_on c xs of
              w # ws \<Rightarrow> (x # w) # ws
            | [] \<Rightarrow> [[x]]))"

section \<open>Versions\<close>

text \<open>
  Modelled from the spec: the class \<open>utils.Version\<close> (its constructor, \<open>__str__\<close>,
  \<open>match\<close> and its comparison operators) is not among the source files. The spec (section 3)
  gives a version as a triple (major, minor, patch) with a total order, an optional
  implementation ceiling (\<open>tfds_version_to_prepare\<close>), and a compatibility check supporting
  exact and wildcard specifiers. The order and equality are those of the triple; the string
  form is \<open>major.minor.patch\<close>, as in the scenarios of section 8.
\<close>

record Version =
  major :: nat
  minor :: nat
  patch :: nat
  tfds_version_to_prepare :: "string option"

definition version_tuple :: "Version \<Rightarrow> nat \<times> nat \<times> nat" where
  "version_tuple v = (major v, minor v, patch v)"

definition version_eq :: "Version \<Rightarrow> Version \<Rightarrow> bool" where
  "version_eq v w = (version_tuple v = version_tuple w)"

definition version_gt :: "Version \<Rightarrow> Version \<Rightarrow> bool" where
  "version_gt v w = (version_tuple w < version_tuple v)"

definition str_version :: "Version \<Rightarrow> string" where
  "str_version v =
     str_of_nat (major v) @ ''.'' @ str_of_nat (minor v) @ ''.'' @ str_of_nat (patch v)"

text \<open>
  Modelled from the spec: a specifier is three dot-separated components, each a decimal
  number or the wildcard \<open>*\<close>. A string of any other shape is no specifier of the spec and
  matches no version here.
\<close>

datatype component = Wildcard | Num nat

definition digit_val :: "char \<Rightarrow> nat option" where
  "digit_val c = map_of
     [(CHR ''0'', 0), (CHR ''1'', 1), (CHR ''2'', 2), (CHR ''3'', 3), (CHR ''4'', 4),
      (CHR ''5'', 5), (CHR ''6'', 6), (CHR ''7'', 7), (CHR ''8'', 8), (CHR ''9'', 9)] c"

fun nat_of_digits :: "nat \<Rightarrow> string \<Rightarrow> nat option" where
  "nat_of_digits acc [] = Some acc"
| "nat_of_digits acc (c # cs) =
     (case digit_val c of
        None \<Rightarrow> None
      | Some d \<Rightarrow> nat_of_digits (10 * acc + d) cs)"

definition parse_component :: "string \<Rightarrow> component option" where
  "parse_component s =
     (if s = ''*'' then Some Wildcard
      else if s = [] then None
      else map_option Num (nat_of_digits 0 s))"

definition str_to_version :: "string \<Rightarrow> (component \<times> component \<times> component) option" where
  "str_to_version s =
     (case split_on CHR ''.'' s of
        [a, b, c] \<Rightarrow>
          (case (parse_component a, parse_component b, parse_component c) of
             (Some x, Some y, Some z) \<Rightarrow> Some (x, y, z)
           | _ \<Rightarrow> None)
      | _ \<Rightarrow> None)"

fun component_matches :: "component \<Rightarrow> nat \<Rightarrow> bool" where
  "component_matches Wildcard n = True"
| "component_matches (Num k) n = (k = n)"

definition version_match :: "Version \<Rightarrow> string \<Rightarrow> bool" where
  "version_match v other_version =
     (case str_to_version other_version of
        None \<Rightarrow> False
      | Some (x, y, z) \<Rightarrow>
          component_matches x (major v) \<and> component_matches y (minor v) \<and>
          component_matches z (patch v))"

text \<open>
  Python's \<open>max(xs)\<close> on a non-empty list: the running maximum is replaced only by a
  strictly greater item, so the first of several greatest items is returned.
\<close>

fun py_max :: "Version \<Rightarrow> Version list \<Rightarrow> Version" where
  "py_max m [] = m"
| "py_max m (x # xs) = py_max (if version_gt x m then x else m) xs"

section \<open>Builder configurations and builders\<close>

text \<open>
  \<open>BuilderConfig\<close> is a dataclass with \<open>eq=False\<close>: two configs are the same only when
  they are the same object. \<open>cfg_id\<close> is the identity of the object, compared by \<open>is\<close>.
  Version fields hold versions already coerced by \<open>utils.Version\<close>.
\<close>

record BuilderConfig =
  cfg_id :: nat
  cfg_name :: string
  cfg_version :: "Version option"
  cfg_supported_versions :: "Version list"
  cfg_description :: "string option"

text \<open>
  The class attributes of a \<open>DatasetBuilder\<close> subclass (upper case, as in the source) and
  the attributes \<open>__init__\<close> sets on the instance.
\<close>

record builder =
  name :: string
  VERSION :: "Version option"
  SUPPORTED_VERSIONS :: "Version list"
  BUILDER_CONFIGS :: "BuilderConfig list"
  DEFAULT_BUILDER_CONFIG_NAME :: "string option"
  builder_config :: "BuilderConfig option"
  version :: Version
  data_dir_root :: string
  data_dir :: string

definition cannonical_version_for_config ::
  "builder \<Rightarrow> BuilderConfig option \<Rightarrow> error + Version" where
  "cannonical_version_for_config instance_or_cls config =
     (if BUILDER_CONFIGS instance_or_cls \<noteq> [] \<and> config = None then
        Inl (ValueError (''Cannot infer version on '' @ name instance_or_cls @
                         ''. Unknown config.''))
      else
        (case (case config of None \<Rightarrow> None | Some c \<Rightarrow> cfg_version c) of
           Some v \<Rightarrow> Inr v
         | None \<Rightarrow>
             (case VERSION instance_or_cls of
                Some v \<Rightarrow> Inr v
              | None \<Rightarrow>
                  Inl (ValueError (''DatasetBuilder '' @ name instance_or_cls @
                         '' does not have a defined version. Please add a '' @
                         ''`VERSION = tfds.core.Version('' @ [CHR 0x27] @ ''x.y.z'' @
                         [CHR 0x27] @ '')` to the class.'')))))"

definition canonical_version :: "builder \<Rightarrow> error + Version" where
  "canonical_version self = cannonical_version_for_config self (builder_config self)"

definition supported_versions :: "builder \<Rightarrow> Version list" where
  "supported_versions self =
     (case builder_config self of
        Some c \<Rightarrow>
          (if cfg_supported_versions c \<noteq> [] then cfg_supported_versions c
           else SUPPORTED_VERSIONS self)
      | None \<Rightarrow> SUPPORTED_VERSIONS self)"

definition versions :: "builder \<Rightarrow> error + Version list" where
  "versions self =
     (case canonical_version self of
        Inl e \<Rightarrow> Inl e
      | Inr c \<Rightarrow> Inr (c # supported_versions self))"

subsection \<open>Version resolution\<close>

text \<open>
  The requested version is \<open>None\<close>, a string or a \<open>Version\<close>; a \<open>Version\<close> is first
  replaced by its string.
\<close>

datatype requested_version = ReqNone | ReqStr string | ReqVersion Version

fun requested_str :: "requested_version \<Rightarrow> string option" where
  "requested_str ReqNone = None"
| "requested_str (ReqStr s) = Some s"
| "requested_str (ReqVersion v) = Some (str_version v)"

definition specifier_matches :: "string option \<Rightarrow> Version \<Rightarrow> bool" where
  "specifier_matches requested v =
     (case requested of None \<Rightarrow> True | Some s \<Rightarrow> version_match v s)"

fun first_match :: "string option \<Rightarrow> Version list \<Rightarrow> Version option" where
  "first_match requested [] = None"
| "first_match requested (v # vs) =
     (if specifier_matches requested v then Some v else first_match requested vs)"

definition format_requested :: "string option \<Rightarrow> string" where
  "format_requested requested = (case requested of None \<Rightarrow> ''None'' | Some s \<Rightarrow> s)"

definition pick_version_msg :: "string \<Rightarrow> string option \<Rightarrow> Version list \<Rightarrow> string" where
  "pick_version_msg ds requested vs =
     ''Dataset '' @ ds @ '' cannot be loaded at version '' @ format_requested requested @
     '', only: '' @ join_str '', '' (map str_version vs) @ ''.''"

definition pick_version :: "builder \<Rightarrow> requested_version \<Rightarrow> error + Version" where
  "pick_version self requested_version =
     (case canonical_version self of
        Inl e \<Rightarrow> Inl e
      | Inr c \<Rightarrow>
          (let requested = requested_str requested_version;
               vs = c # supported_versions self
           in if requested = Some ''experimental_latest'' then Inr (py_max c (supported_versions self))
              else (case first_match requested vs of
                      Some v \<Rightarrow> Inr v
                    | None \<Rightarrow> Inl (AssertionError (pick_version_msg (name self) requested vs)))))"

text \<open>The scenario of the spec: canonical version 1.0.0, supported versions [0.9.0].\<close>

definition v_1_0_0 :: Version where
  "v_1_0_0 = \<lparr>major = 1, minor = 0, patch = 0, tfds_version_to_prepare = None\<rparr>"

definition v_0_9_0 :: Version where
  "v_0_9_0 = \<lparr>major = 0, minor = 9, patch = 0, tfds_version_to_prepare = None\<rparr>"

definition scenario_builder :: builder where
  "scenario_builder =
     \<lparr>name = ''ds'', VERSION = Some v_1_0_0, SUPPORTED_VERSIONS = [v_0_9_0],
      BUILDER_CONFIGS = [], DEFAULT_BUILDER_CONFIG_NAME = None, builder_config = None,
      version = v_1_0_0, data_dir_root = ''/data'', data_dir = ''/data/ds/1.0.0''\<rparr>"

section \<open>Logging\<close>

text \<open>
  Logging is the only effect of several functions below; a function that logs returns the
  records it emitted, in order, next to its result.
\<close>

datatype log_entry = LogInfo string | LogWarning string

section \<open>Locating the data directory\<close>

text \<open>\<open>os.path.join(a, b)\<close> on POSIX paths.\<close>

definition os_path_join :: "string \<Rightarrow> string \<Rightarrow> string" where
  "os_path_join a b =
     (if b \<noteq> [] \<and> hd b = CHR ''/'' then b
      else if a = [] \<or> last a = CHR ''/'' then a @ b
      else a @ ''/'' @ b)"

definition relative_data_dir :: "builder \<Rightarrow> bool \<Rightarrow> string" where
  "relative_data_dir self with_version =
     (let builder_data_dir =
            (case builder_config self of
               Some c \<Rightarrow> os_path_join (name self) (cfg_name c)
             | None \<Rightarrow> name self)
      in if \<not> with_version then builder_data_dir
         else os_path_join builder_data_dir (str_version (version self)))"

text \<open>
  A Python \<open>dict\<close> as an association list in insertion order: assigning to a key that is
  present replaces its value in place, a new key goes to the end.
\<close>

fun dict_set :: "('k \<times> 'v) list \<Rightarrow> 'k \<Rightarrow> 'v \<Rightarrow> ('k \<times> 'v) list" where
  "dict_set [] k v = [(k, v)]"
| "dict_set ((k', v') # kvs) k v =
     (if k' = k then (k, v) # kvs else (k', v') # dict_set kvs k v)"

text \<open>
  \<open>repr\<close> of a string and of a list of strings, as \<open>%s\<close> formats them inside messages
  (for strings without quotes, backslashes or control characters).
\<close>

definition repr_str :: "string \<Rightarrow> string" where
  "repr_str s = [CHR 0x27] @ s @ [CHR 0x27]"

definition repr_list :: "string list \<Rightarrow> string" where
  "repr_list xs = ''['' @ join_str '', '' (map repr_str xs) @ '']''"

text \<open>
  The loop of \<open>_build_data_dir\<close> over the configured roots. \<open>list_all_versions\<close> is the
  directory-listing capability of the store (\<open>utils.version.list_all_versions\<close>): the
  versions whose directory is present under a builder directory. The set \<open>all_versions\<close>
  is kept as the list of version triples seen; membership of the requested version is
  decided by the equality of versions.
\<close>

fun scan_data_dirs ::
  "(string \<Rightarrow> Version list) \<Rightarrow> Version \<Rightarrow> string \<Rightarrow> string \<Rightarrow> string list \<Rightarrow>
   (nat \<times> nat \<times> nat) list \<times> (string \<times> string) list \<Rightarrow>
   (nat \<times> nat \<times> nat) list \<times> (string \<times> string) list" where
  "scan_data_dirs list_all_versions v builder_dir version_dir [] st = st"
| "scan_data_dirs list_all_versions v builder_dir version_dir (root # rest)
     (all_versions, requested_version_dirs) =
     (let full_builder_dir = os_path_join root builder_dir;
          data_dir_versions = list_all_versions full_builder_dir;
          requested_version_dirs' =
            (if \<exists>w \<in> set data_dir_versions. version_eq v w
             then dict_set requested_version_dirs root
                    (os_path_join root version_dir)
             else requested_version_dirs)
      in scan_data_dirs list_all_versions v builder_dir version_dir rest
           (all_versions @ map version_tuple data_dir_versions, requested_version_dirs'))"

definition str_version_tuple :: "nat \<times> nat \<times> nat \<Rightarrow> string" where
  "str_version_tuple t =
     (case t of (a, b, c) \<Rightarrow> str_of_nat a @ ''.'' @ str_of_nat b @ ''.'' @ str_of_nat c)"

definition ambiguity_msg :: "(string \<times> string) list \<Rightarrow> string" where
  "ambiguity_msg requested_version_dirs =
     ''Dataset was found in more than one directory: dict_values('' @
     repr_list (map snd requested_version_dirs) @
     ''). Please resolve the ambiguity by explicitly specifying `data_dir=`.''"

definition different_version_msg :: "(nat \<times> nat \<times> nat) list \<Rightarrow> string \<Rightarrow> string" where
  "different_version_msg all_versions data_dir' =
     ''Found a different version of the requested dataset:'' @ [CHR 0x0A] @
     join_str [CHR 0x0A] (map str_version_tuple (sort (remdups all_versions))) @ [CHR 0x0A] @
     ''Using '' @ data_dir' @ '' instead.''"

text \<open>
  \<open>_build_data_dir\<close>. The default root (\<open>file_utils.get_default_data_dir\<close>) and the list of
  configured roots (\<open>file_utils.list_data_dirs\<close>) are computed outside the source files and
  are parameters here. The result is the pair (root, version directory), or the error.
\<close>

definition build_data_dir ::
  "(string \<Rightarrow> Version list) \<Rightarrow> string \<Rightarrow> string list \<Rightarrow> builder \<Rightarrow>
   (error + string \<times> string) \<times> log_entry list" where
  "build_data_dir list_all_versions default_data_dir all_data_dirs self =
     (let builder_dir = relative_data_dir self False;
          version_dir = relative_data_dir self True;
          st = scan_data_dirs list_all_versions (version self) builder_dir version_dir
                 all_data_dirs ([], []);
          all_versions = fst st;
          requested_version_dirs = snd st
      in if length requested_version_dirs > 1 then
           (Inl (ValueError (ambiguity_msg requested_version_dirs)), [])
         else if length requested_version_dirs = 1 then
           (Inr (hd requested_version_dirs), [])
         else
           (let data_dir' = os_path_join default_data_dir version_dir
            in (Inr (default_data_dir, data_dir'),
                if all_versions \<noteq> []
                then [LogWarning (different_version_msg all_versions data_dir')]
                else [])))"

section \<open>Builder configuration resolution\<close>

definition get_default_config ::
  "BuilderConfig list \<Rightarrow> string option \<Rightarrow> error + BuilderConfig option" where
  "get_default_config builder_configs default_config_name =
     (case builder_configs of
        [] \<Rightarrow> Inr None
      | first # _ \<Rightarrow>
          (case default_config_name of
             None \<Rightarrow> Inr (Some first)
           | Some n \<Rightarrow>
               (case find (\<lambda>c. cfg_name c = n) builder_configs of
                  Some c \<Rightarrow> Inr (Some c)
                | None \<Rightarrow>
                    Inl (RuntimeError (''Builder config with name `'' @ n @ ''` not found.'')))))"

definition get_default_builder_config :: "builder \<Rightarrow> error + BuilderConfig option" where
  "get_default_builder_config self =
     get_default_config (BUILDER_CONFIGS self) (DEFAULT_BUILDER_CONFIG_NAME self)"

text \<open>
  The class property \<open>builder_configs\<close>: the dictionary from name to declared config, an
  error when two declared configs share a name.
\<close>

definition builder_configs :: "builder \<Rightarrow> error + (string \<times> BuilderConfig) list" where
  "builder_configs cls =
     (let config_dict = fold (\<lambda>config d. dict_set d (cfg_name config) config)
                          (BUILDER_CONFIGS cls) []
      in if length config_dict \<noteq> length (BUILDER_CONFIGS cls) then
           Inl (ValueError (''Names in BUILDER_CONFIGS must not be duplicated. Got '' @
                            repr_list (map cfg_name (BUILDER_CONFIGS cls))))
         else Inr config_dict)"

text \<open>
  The argument of \<open>_create_builder_config\<close>: \<open>None\<close>, a config name or a config object.
\<close>

datatype config_arg = CfgNone | CfgName string | CfgObject BuilderConfig

text \<open>
  The second half of \<open>_create_builder_config\<close>, from \<open>name = builder_config.name\<close> on;
  \<open>is\<close> compares the identities of the two objects.
\<close>

definition validate_builder_config ::
  "builder \<Rightarrow> BuilderConfig \<Rightarrow> log_entry list \<Rightarrow>
   (error + BuilderConfig option) \<times> log_entry list" where
  "validate_builder_config self config lg =
     (let nm = cfg_name config
      in if nm = [] then (Inl (ValueError ''BuilderConfig must have a name, got ''), lg)
         else
           (case builder_configs self of
              Inl e \<Rightarrow> (Inl e, lg)
            | Inr d \<Rightarrow>
                (case map_of d nm of
                   None \<Rightarrow>
                     (Inr (Some config),
                      lg @ [LogWarning (''Using custom data configuration '' @ nm)])
                 | Some registered \<Rightarrow>
                     (if cfg_id config \<noteq> cfg_id registered then
                        (Inl (ValueError
                           (''Cannot name a custom BuilderConfig the same as an available '' @
                            ''BuilderConfig. Change the name. Available BuilderConfigs: '' @
                            repr_list (map fst d))), lg)
                      else (Inr (Some config), lg)))))"

definition create_builder_config ::
  "builder \<Rightarrow> config_arg \<Rightarrow> (error + BuilderConfig option) \<times> log_entry list" where
  "create_builder_config self arg =
     (case arg of
        CfgNone \<Rightarrow>
          (case get_default_builder_config self of
             Inl e \<Rightarrow> (Inl e, [])
           | Inr None \<Rightarrow> (Inr None, [])
           | Inr (Some config) \<Rightarrow>
               validate_builder_config self config
                 [LogInfo (''No config specified, defaulting to config: '' @ name self @
                           ''/'' @ cfg_name config)])
      | CfgName nm \<Rightarrow>
          (if nm = [] then (Inr None, [])
           else
             (case builder_configs self of
                Inl e \<Rightarrow> (Inl e, [])
              | Inr d \<Rightarrow>
                  (case map_of d nm of
                     None \<Rightarrow>
                       (Inl (ValueError (''BuilderConfig '' @ nm @ '' not found. Available: '' @
                                         repr_list (map fst d))), [])
                   | Some config \<Rightarrow> validate_builder_config self config [])))
      | CfgObject config \<Rightarrow> validate_builder_config self config [])"

section \<open>The default configuration name of a dataset\<close>

text \<open>
  The store, at the level of the spec (section 6): paths are sequences of components, as
  \<open>epath.Path\<close> keeps them; a file is a path bound to its content, and a directory is a
  recorded path. \<open>json.dumps\<close> and \<open>json.loads\<close> are the standard library's serialiser and
  parser; the text of a file is represented by the JSON document it encodes.
\<close>

datatype json = JNull | JStr string | JObj "(string \<times> json) list"

type_synonym path = "string list"

record store =
  files :: "path \<Rightarrow> json option"
  dirs :: "path set"

definition path_parts :: "string \<Rightarrow> string list" where
  "path_parts s = filter (\<lambda>part. part \<noteq> [] \<and> part \<noteq> ''.'') (split_on CHR ''/'' s)"

text \<open>\<open>p / s\<close>: an absolute right operand replaces the left one.\<close>

definition truediv :: "path \<Rightarrow> string \<Rightarrow> path" where
  "truediv p s =
     (if s \<noteq> [] \<and> hd s = CHR ''/'' then ''/'' # path_parts s else p @ path_parts s)"

definition path_exists :: "store \<Rightarrow> path \<Rightarrow> bool" where
  "path_exists st p = (files st p \<noteq> None \<or> p \<in> dirs st)"

fun all_prefixes :: "path \<Rightarrow> path list" where
  "all_prefixes [] = []"
| "all_prefixes (x # xs) = [x] # map ((#) x) (all_prefixes xs)"

text \<open>\<open>p.mkdir(parents=True, exist_ok=True)\<close>.\<close>

definition mkdir_parents :: "path \<Rightarrow> store \<Rightarrow> store" where
  "mkdir_parents p st = st\<lparr>dirs := dirs st \<union> set (all_prefixes p)\<rparr>"

text \<open>
  Modelled from the spec: \<open>utils.incomplete_file\<close> is not among the source files. The spec
  (section 4.6) and the comment at its call give the discipline: the content is written
  under a temporary name beside the target, decorated as incomplete, and the temporary file
  is then renamed onto the target. \<open>uid\<close> is the fresh part of the temporary name.
\<close>

definition tmp_file_name :: "string \<Rightarrow> path \<Rightarrow> path" where
  "tmp_file_name uid p = butlast p @ [''.incomplete'' @ uid @ ''.'' @ last p]"

definition write_text :: "path \<Rightarrow> json \<Rightarrow> store \<Rightarrow> store" where
  "write_text p content st = st\<lparr>files := (files st)(p \<mapsto> content)\<rparr>"

definition rename_path :: "path \<Rightarrow> path \<Rightarrow> store \<Rightarrow> store" where
  "rename_path src dst st = st\<lparr>files := ((files st)(dst := files st src))(src := None)\<rparr>"

definition incomplete_file_write :: "string \<Rightarrow> path \<Rightarrow> json \<Rightarrow> store \<Rightarrow> store" where
  "incomplete_file_write uid p content st =
     (let tmp_path = tmp_file_name uid p
      in rename_path tmp_path p (write_text tmp_path content st))"

definition save_default_config_name :: "string \<Rightarrow> path \<Rightarrow> string \<Rightarrow> store \<Rightarrow> store" where
  "save_default_config_name uid common_dir default_config_name st =
     (let data = JObj [(''default_config_name'', JStr default_config_name)];
          config_dir = truediv common_dir ''.config'';
          st' = mkdir_parents config_dir st;
          config_path = truediv config_dir ''metadata.json''
      in incomplete_file_write uid config_path data st')"

text \<open>
  \<open>load_default_config_name\<close>. \<open>Inr None\<close> is Python's \<open>None\<close>. In the dictionary parsed
  from a JSON object the last binding of a repeated key stands, and \<open>null\<close> is \<open>None\<close>.
\<close>

definition load_default_config_name :: "path \<Rightarrow> store \<Rightarrow> error + json option" where
  "load_default_config_name common_dir st =
     (let config_path = truediv common_dir ''.config/metadata.json''
      in if \<not> path_exists st config_path then Inr None
         else
           (case files st config_path of
              None \<Rightarrow> Inl (IOError ''Is a directory'')
            | Some (JObj kvs) \<Rightarrow>
                (case map_of (rev kvs) ''default_config_name'' of
                   None \<Rightarrow> Inr None
                 | Some JNull \<Rightarrow> Inr None
                 | Some v \<Rightarrow> Inr (Some v))
            | Some _ \<Rightarrow> Inl (AttributeError ''get'')))"

section \<open>Splits and their statistics\<close>

text \<open>
  Modelled from the spec: the module \<open>splits\<close> (\<open>SplitInfo\<close>, \<open>MultiSplitInfo\<close>,
  \<open>SplitDict\<close>) and \<open>naming.ShardedFileTemplate\<close> are not among the source files. Section 3
  of the spec gives a SplitInfo as name, per-shard record counts, total byte size, optional
  statistics blob and optional filename template (artifact name, directory, split name,
  file-type suffix); a MultiSplitInfo aggregates SplitInfo entries and is opaque to the
  merge; a SplitDict is an ordered mapping from split name to entry with unique keys.
  The statistics blob is the serialised message, whose \<open>ByteSize()\<close> is its length.
\<close>

record ShardedFileTemplate =
  tmpl_dataset_name :: string
  tmpl_data_dir :: string
  tmpl_split :: "string option"
  tmpl_filetype_suffix :: string

record SplitInfo =
  split_name :: string
  shard_lengths :: "nat list"
  num_bytes :: nat
  statistics :: string
  filename_template :: "ShardedFileTemplate option"

datatype split_entry = Single SplitInfo | Multi string "SplitInfo list"

type_synonym SplitDict = "(string \<times> split_entry) list"

fun entry_name :: "split_entry \<Rightarrow> string" where
  "entry_name (Single si) = split_name si"
| "entry_name (Multi nm sis) = nm"

fun entry_statistics :: "split_entry \<Rightarrow> string" where
  "entry_statistics (Single si) = statistics si"
| "entry_statistics (Multi nm sis) = []"

fun entry_shard_lengths :: "split_entry \<Rightarrow> nat list" where
  "entry_shard_lengths (Single si) = shard_lengths si"
| "entry_shard_lengths (Multi nm sis) = concat (map shard_lengths sis)"

definition make_SplitDict :: "split_entry list \<Rightarrow> SplitDict" where
  "make_SplitDict split_infos = fold (\<lambda>e d. dict_set d (entry_name e) e) split_infos []"

text \<open>\<open>SplitInfo.to_proto\<close>: the record of the descriptor carries no filename template.\<close>

definition to_proto :: "SplitInfo \<Rightarrow> SplitInfo" where
  "to_proto si = si\<lparr>filename_template := None\<rparr>"

fun entry_protos :: "split_entry \<Rightarrow> SplitInfo list" where
  "entry_protos (Single si) = [to_proto si]"
| "entry_protos (Multi nm sis) = map to_proto sis"

text \<open>\<open>SplitDict.from_proto\<close>: each record of the descriptor with the template of its split.\<close>

definition SplitDict_from_proto :: "SplitInfo list \<Rightarrow> ShardedFileTemplate \<Rightarrow> SplitDict" where
  "SplitDict_from_proto repeated_split_infos template =
     make_SplitDict
       (map (\<lambda>si. Single (si\<lparr>filename_template :=
                               Some (template\<lparr>tmpl_split := Some (split_name si)\<rparr>)\<rparr>))
            repeated_split_infos)"

section \<open>The descriptor and the dataset info\<close>

text \<open>
  The \<open>DatasetInfo\<close> message of the generated descriptor module: a value for every field
  name. A singular message field is the serialised sub-message when it is set, so that
  merging two set messages is the concatenation of their serialisations; a map field is a
  finite map; the repeated \<open>splits\<close> field is the list of its records.
\<close>

datatype pvalue =
    PStr string
  | PInt int
  | PBool bool
  | PMsg "string option"
  | PMap "(string, string) fmap"
  | PSplits "SplitInfo list"

type_synonym proto = "string \<Rightarrow> pvalue"

datatype field_type = TYPE_STRING | TYPE_INT64 | TYPE_BOOL | TYPE_MESSAGE

definition DatasetInfo_fields :: "(string \<times> field_type) list" where
  "DatasetInfo_fields =
     [(''name'', TYPE_STRING), (''description'', TYPE_STRING), (''version'', TYPE_STRING),
      (''release_notes'', TYPE_MESSAGE), (''config_name'', TYPE_STRING),
      (''config_description'', TYPE_STRING), (''citation'', TYPE_STRING),
      (''size_in_bytes'', TYPE_INT64), (''download_size'', TYPE_INT64),
      (''location'', TYPE_MESSAGE), (''download_checksums'', TYPE_MESSAGE),
      (''schema'', TYPE_MESSAGE), (''splits'', TYPE_MESSAGE),
      (''supervised_keys'', TYPE_MESSAGE), (''redistribution_info'', TYPE_MESSAGE),
      (''module_name'', TYPE_STRING), (''disable_shuffling'', TYPE_BOOL),
      (''file_format'', TYPE_STRING)]"

text \<open>The fields that hold the identity of the dataset.\<close>

definition identity_fields :: "string list" where
  "identity_fields =
     [''name'', ''version'', ''release_notes'', ''config_name'', ''config_description'',
      ''module_name'']"

fun proto_str :: "pvalue \<Rightarrow> string" where
  "proto_str (PStr s) = s"
| "proto_str _ = []"

fun proto_map :: "pvalue \<Rightarrow> (string, string) fmap" where
  "proto_map (PMap m) = m"
| "proto_map _ = fmempty"

fun proto_splits :: "pvalue \<Rightarrow> SplitInfo list" where
  "proto_splits (PSplits ss) = ss"
| "proto_splits _ = []"

text \<open>
  Whether a field is defined, as \<open>read_from_directory\<close> decides it: \<open>HasField\<close> answers for
  a singular message field and raises \<open>ValueError\<close> for every other field, for which the
  truth value of the field's value is taken.
\<close>

fun is_defined :: "pvalue \<Rightarrow> bool" where
  "is_defined (PStr s) = (s \<noteq> [])"
| "is_defined (PInt i) = (i \<noteq> 0)"
| "is_defined (PBool b) = b"
| "is_defined (PMsg m) = (m \<noteq> None)"
| "is_defined (PMap m) = (m \<noteq> fmempty)"
| "is_defined (PSplits ss) = (ss \<noteq> [])"

fun merge_msg :: "string option \<Rightarrow> string option \<Rightarrow> string option" where
  "merge_msg None b = b"
| "merge_msg (Some a) None = Some a"
| "merge_msg (Some a) (Some b) = Some (a @ b)"

text \<open>\<open>field_value.MergeFrom(field_value_restored)\<close>.\<close>

fun MergeFrom :: "pvalue \<Rightarrow> pvalue \<Rightarrow> pvalue" where
  "MergeFrom (PMsg a) (PMsg b) = PMsg (merge_msg a b)"
| "MergeFrom (PMap a) (PMap b) = PMap (a ++\<^sub>f b)"
| "MergeFrom (PSplits a) (PSplits b) = PSplits (a @ b)"
| "MergeFrom _ restored = restored"

record DatasetIdentity =
  id_name :: string
  id_version :: Version
  id_data_dir :: string
  id_module_name :: string
  id_config_name :: "string option"
  id_config_description :: "string option"
  id_release_notes :: "(string, string) fmap option"

record DatasetInfo =
  identity :: DatasetIdentity
  info_proto :: proto
  splits :: SplitDict
  fully_initialized :: bool

definition info_name :: "DatasetInfo \<Rightarrow> string" where
  "info_name self = id_name (identity self)"

definition info_version :: "DatasetInfo \<Rightarrow> Version" where
  "info_version self = id_version (identity self)"

definition info_data_dir :: "DatasetInfo \<Rightarrow> string" where
  "info_data_dir self = id_data_dir (identity self)"

definition info_config_name :: "DatasetInfo \<Rightarrow> string" where
  "info_config_name self = proto_str (info_proto self ''config_name'')"

text \<open>\<open>posixpath.join(*names)\<close>.\<close>

fun posixpath_join :: "string \<Rightarrow> string list \<Rightarrow> string" where
  "posixpath_join a [] = a"
| "posixpath_join a (b # bs) = posixpath_join (os_path_join a b) bs"

definition full_name :: "DatasetInfo \<Rightarrow> string" where
  "full_name self =
     posixpath_join (info_name self)
       ((if info_config_name self \<noteq> [] then [info_config_name self] else []) @
        [str_version (info_version self)])"

definition DEFAULT_FILE_FORMAT :: string where
  "DEFAULT_FILE_FORMAT = ''tfrecord''"

subsection \<open>Installing a split dictionary\<close>

text \<open>The first loop of \<open>set_splits\<close>: the check of the template's dataset name.\<close>

fun check_dataset_names :: "string \<Rightarrow> SplitDict \<Rightarrow> error option" where
  "check_dataset_names ds [] = None"
| "check_dataset_names ds ((split, Multi nm sis) # rest) = check_dataset_names ds rest"
| "check_dataset_names ds ((split, Single split_info) # rest) =
     (case filename_template split_info of
        None \<Rightarrow> check_dataset_names ds rest
      | Some t \<Rightarrow>
          (if ds \<noteq> tmpl_dataset_name t then
             Some (AssertionError
               (''SplitDict contains SplitInfo for split '' @ split @
                '' whose dataset_name does not match to the dataset name in dataset_info. '' @
                ds @ '' != '' @ tmpl_dataset_name t))
           else check_dataset_names ds rest))"

text \<open>The body of the second loop, for an entry that is not a \<open>MultiSplitInfo\<close>.\<close>

definition forward_split_info ::
  "SplitDict \<Rightarrow> ShardedFileTemplate \<Rightarrow> SplitInfo \<Rightarrow> SplitInfo" where
  "forward_split_info old_splits incomplete_filename_template split_info =
     (let old_split_info = map_of old_splits (split_name split_info);
          split_info1 =
            (case old_split_info of
               None \<Rightarrow> split_info
             | Some old \<Rightarrow>
                 (if statistics split_info = [] \<and> entry_statistics old \<noteq> [] \<and>
                     entry_shard_lengths old = shard_lengths split_info
                  then split_info\<lparr>statistics := entry_statistics old\<rparr>
                  else split_info))
      in if filename_template split_info1 = None then
           split_info1\<lparr>filename_template :=
             Some (incomplete_filename_template\<lparr>tmpl_split := Some (split_name split_info1)\<rparr>)\<rparr>
         else split_info1)"

fun forward_entry :: "SplitDict \<Rightarrow> ShardedFileTemplate \<Rightarrow> split_entry \<Rightarrow> split_entry" where
  "forward_entry old_splits t (Multi nm sis) = Multi nm sis"
| "forward_entry old_splits t (Single split_info) =
     Single (forward_split_info old_splits t split_info)"

definition set_splits :: "DatasetInfo \<Rightarrow> SplitDict \<Rightarrow> error + DatasetInfo" where
  "set_splits self split_dict =
     (case check_dataset_names (info_name self) split_dict of
        Some e \<Rightarrow> Inl e
      | None \<Rightarrow>
          (let incomplete_filename_template =
                 \<lparr>tmpl_dataset_name = info_name self, tmpl_data_dir = info_data_dir self,
                  tmpl_split = None,
                  tmpl_filetype_suffix =
                    (if proto_str (info_proto self ''file_format'') \<noteq> []
                     then proto_str (info_proto self ''file_format'')
                     else DEFAULT_FILE_FORMAT)\<rparr>;
               new_split_infos =
                 map (\<lambda>kv. forward_entry (splits self) incomplete_filename_template (snd kv))
                     split_dict;
               new_splits = make_SplitDict new_split_infos
           in Inr (self\<lparr>splits := new_splits,
                        info_proto := (info_proto self)
                          (''splits'' := PSplits (concat (map (\<lambda>kv. entry_protos (snd kv))
                                                              new_splits)))\<rparr>)))"

subsection \<open>Loading the descriptor of a directory\<close>

text \<open>
  Modelled from the spec: the constructor of \<open>utils.Version\<close> from a string, which is not
  among the source files: the three numbers of \<open>major.minor.patch\<close>, without a ceiling.
\<close>

definition Version_of_str :: "string \<Rightarrow> error + Version" where
  "Version_of_str s =
     (case str_to_version s of
        Some (Num a, Num b, Num c) \<Rightarrow>
          Inr \<lparr>major = a, minor = b, patch = c, tfds_version_to_prepare = None\<rparr>
      | _ \<Rightarrow> Inl (ValueError (''Format should be x.y.z with {x,y,z} being digits, got '' @ s)))"

definition identity_from_proto :: "proto \<Rightarrow> string \<Rightarrow> error + DatasetIdentity" where
  "identity_from_proto parsed dir =
     (case Version_of_str (proto_str (parsed ''version'')) of
        Inl e \<Rightarrow> Inl e
      | Inr v \<Rightarrow>
          Inr \<lparr>id_name = proto_str (parsed ''name''), id_version = v, id_data_dir = dir,
               id_module_name = proto_str (parsed ''module_name''),
               id_config_name = Some (proto_str (parsed ''config_name'')),
               id_config_description = Some (proto_str (parsed ''config_description'')),
               id_release_notes = Some (proto_map (parsed ''release_notes''))\<rparr>)"

text \<open>The record logged when a field defined in the code differs from the persisted one.\<close>

definition mismatch_log :: "string \<Rightarrow> log_entry" where
  "mismatch_log field_name =
     LogInfo (''Field info.'' @ field_name @
              '' from disk and from code do not match. Keeping the one from code.'')"

text \<open>One round of the loop over the fields of the descriptor.\<close>

definition reconcile_field ::
  "proto \<Rightarrow> string \<times> field_type \<Rightarrow> proto \<times> log_entry list \<Rightarrow> proto \<times> log_entry list" where
  "reconcile_field parsed_proto field st =
     (let field_name = fst field;
          p = fst st;
          lg = snd st;
          field_value = p field_name;
          field_value_restored = parsed_proto field_name
      in if is_defined field_value then
           (p, if field_value \<noteq> field_value_restored
               then lg @ [mismatch_log field_name]
               else lg)
         else if \<not> is_defined field_value_restored then (p, lg)
         else if snd field = TYPE_MESSAGE then
           (p(field_name := MergeFrom field_value field_value_restored), lg)
         else (p(field_name := field_value_restored), lg))"

text \<open>
  \<open>read_from_directory\<close> mutates the info; the model returns the exception raised (if any),
  the info as the call leaves it, and the log. \<open>read_from_json\<close> is the descriptor the store
  holds for a directory (\<open>None\<close> when reading or parsing it raises); \<open>restore_features\<close> is
  the outcome of restoring the feature and metadata objects, which belong to external
  collaborators and touch no field of the descriptor.
\<close>

definition read_from_directory ::
  "(string \<Rightarrow> proto option) \<Rightarrow> (string \<Rightarrow> error option) \<Rightarrow> DatasetInfo \<Rightarrow> string \<Rightarrow>
   error option \<times> DatasetInfo \<times> log_entry list" where
  "read_from_directory read_from_json restore_features self dataset_info_dir =
     (let lg = [LogInfo (''Load dataset info from '' @ dataset_info_dir)]
      in case read_from_json dataset_info_dir of
           None \<Rightarrow>
             (Some (FileNotFoundError
                (''Tried to load `DatasetInfo` from a directory which does not exist or'' @
                 '' does not contain `dataset_info.json`. Please delete the directory `'' @
                 dataset_info_dir @ ''`  if you are trying to re-generate the dataset.'')),
              self, lg)
         | Some parsed_proto \<Rightarrow>
             (if str_version (info_version self) \<noteq> proto_str (parsed_proto ''version'') then
                (Some (AssertionError
                   (''The constructed DatasetInfo instance and the restored proto version '' @
                    ''do not match. Builder version: '' @ str_version (info_version self) @
                    ''. Proto version: '' @ proto_str (parsed_proto ''version''))),
                 self, lg)
              else
                (case identity_from_proto parsed_proto dataset_info_dir of
                   Inl e \<Rightarrow> (Some e, self, lg)
                 | Inr ident \<Rightarrow>
                     (let self1 = self\<lparr>identity := ident\<rparr>;
                          template =
                            \<lparr>tmpl_dataset_name = info_name self1,
                             tmpl_data_dir = info_data_dir self1, tmpl_split = None,
                             tmpl_filetype_suffix =
                               (if proto_str (parsed_proto ''file_format'') \<noteq> []
                                then proto_str (parsed_proto ''file_format'')
                                else ''tfrecord'')\<rparr>;
                          split_dict =
                            SplitDict_from_proto (proto_splits (parsed_proto ''splits'')) template
                      in case set_splits self1 split_dict of
                           Inl e \<Rightarrow> (Some e, self1, lg)
                         | Inr self2 \<Rightarrow>
                             (case restore_features dataset_info_dir of
                                Some e \<Rightarrow> (Some e, self2, lg)
                              | None \<Rightarrow>
                                  (let st = fold (reconcile_field parsed_proto)
                                              DatasetInfo_fields (info_proto self2, lg)
                                   in (None,
                                       self2\<lparr>info_proto := fst st, fully_initialized := True\<rparr>,
                                       snd st)))))))"

section \<open>Preparing a dataset\<close>

datatype download_mode = REUSE_DATASET_IF_EXISTS | REUSE_CACHE_IF_EXISTS | FORCE_REDOWNLOAD

text \<open>
  The platform \<open>download_and_prepare\<close> runs on, over a state of the world \<open>'w\<close>: whether a
  path exists (\<open>tf.io.gfile.exists\<close>), the removal of a tree (\<open>epath.Path.rmtree\<close>), and
  \<open>prepare\<close>, everything the function does once its checks of the version and of the
  existing data have passed (from the log record \<open>Generating dataset\<close> on: the check of
  the disk space, the download manager, the generation into the temporary directory, its
  renaming and the removal of incomplete files), with the exception it may raise.
\<close>

record 'w platform =
  gfile_exists :: "'w \<Rightarrow> string \<Rightarrow> bool"
  rmtree :: "string \<Rightarrow> 'w \<Rightarrow> 'w"
  prepare :: "'w \<Rightarrow> error option \<times> 'w"

datatype outcome = Reused | Prepared

text \<open>Python's order of strings, by code points, and \<open>sorted\<close> of a set of two strings.\<close>

fun str_less :: "string \<Rightarrow> string \<Rightarrow> bool" where
  "str_less [] [] = False"
| "str_less [] (y # ys) = True"
| "str_less (x # xs) [] = False"
| "str_less (x # xs) (y # ys) =
     ((of_char x :: nat) < of_char y \<or> (x = y \<and> str_less xs ys))"

definition sorted_pair :: "string \<Rightarrow> string \<Rightarrow> string list" where
  "sorted_pair a b = (if a = b then [a] else if str_less a b then [a, b] else [b, a])"

definition truthy :: "string option \<Rightarrow> bool" where
  "truthy x = (case x of None \<Rightarrow> False | Some s \<Rightarrow> s \<noteq> [])"

definition too_old_msg :: "builder \<Rightarrow> Version list \<Rightarrow> string" where
  "too_old_msg self vs =
     ''The version of the dataset you are trying to use ('' @ name self @ '':'' @
     str_version (version self) @ '') can only be generated using TFDS code synced @ '' @
     the (tfds_version_to_prepare (version self)) @
     '' or earlier. Either sync to that version of TFDS to first prepare the data or use '' @
     ''another version of the dataset (available for `download_and_prepare`: '' @
     join_str '', '' (map str_version (filter (\<lambda>v. \<not> truthy (tfds_version_to_prepare v)) vs)) @
     '').''"

definition not_installable_msg :: "builder \<Rightarrow> DatasetInfo \<Rightarrow> string list \<Rightarrow> string" where
  "not_installable_msg self info installable =
     ''The version of the dataset you are trying to use ('' @ full_name info @
     '') is too old for this version of TFDS so cannot be generated.'' @
     (if truthy (tfds_version_to_prepare (version self)) then
        str_version (version self) @ '' can only be generated using TFDS code synced @ '' @
        the (tfds_version_to_prepare (version self)) @
        '' or earlier Either sync to that version of TFDS to first prepare the data or '' @
        ''use another version of the dataset. ''
      else
        ''Either sync to a previous version of TFDS to first prepare the '' @
        ''data or use another version of the dataset. '') @
     ''Available for `download_and_prepare`: '' @ repr_list installable"

text \<open>
  The two checks of the version in \<open>download_and_prepare\<close>: the ceiling of the resolved
  version, then its membership in the installable versions.
\<close>

definition check_version_to_prepare :: "builder \<Rightarrow> DatasetInfo \<Rightarrow> error option" where
  "check_version_to_prepare self info =
     (if truthy (tfds_version_to_prepare (version self)) then
        (case versions self of
           Inl e \<Rightarrow> Some e
         | Inr vs \<Rightarrow> Some (AssertionError (too_old_msg self vs)))
      else
        (case canonical_version self of
           Inl e \<Rightarrow> Some e
         | Inr c \<Rightarrow>
             (let installable_versions =
                    sorted_pair (str_version c)
                      (str_version (py_max c (supported_versions self)))
              in if str_version (version self) \<notin> set installable_versions then
                   Some (ValueError (not_installable_msg self info installable_versions))
                 else None)))"

definition overwrite_msg :: "builder \<Rightarrow> string" where
  "overwrite_msg self =
     ''Trying to overwrite an existing dataset '' @ name self @ '' at '' @ data_dir self @
     ''. A dataset with the same version '' @ str_version (version self) @
     '' already exists. If the dataset has changed, please update the version number.''"

definition download_and_prepare ::
  "'w platform \<Rightarrow> builder \<Rightarrow> DatasetInfo \<Rightarrow> download_mode \<Rightarrow> 'w \<Rightarrow>
   (error + outcome) \<times> 'w \<times> log_entry list" where
  "download_and_prepare pf self info mode w =
     (let data_exists = gfile_exists pf w (data_dir self)
      in if data_exists \<and> mode = REUSE_DATASET_IF_EXISTS then
           (Inr Reused, w,
            [LogInfo (''Reusing dataset '' @ name self @ '' ('' @ data_dir self @ '')'')])
         else
           (let deleting = (data_exists \<and> mode = REUSE_CACHE_IF_EXISTS);
                w1 = (if deleting then rmtree pf (data_dir self) w else w);
                data_exists1 =
                  (if deleting then gfile_exists pf w1 (data_dir self) else data_exists);
                lg = (if deleting
                      then [LogInfo (''Deleting pre-existing dataset '' @ name self @ '' ('' @
                                     data_dir self @ '')'')]
                      else [])
            in case check_version_to_prepare self info of
                 Some e \<Rightarrow> (Inl e, w1, lg)
               | None \<Rightarrow>
                   (if data_exists1 then (Inl (ValueError (overwrite_msg self)), w1, lg)
                    else
                      (case prepare pf w1 of
                         (Some e, w2) \<Rightarrow> (Inl e, w2, lg)
                       | (None, w2) \<Rightarrow> (Inr Prepared, w2, lg)))))"

section \<open>Example inputs\<close>

text \<open>A store in which nothing has been written.\<close>

definition empty_store :: store where
  "empty_store = \<lparr>files = (\<lambda>p. None), dirs = {}\<rparr>"

text \<open>
  Two declared configurations, a second object with the name of the first, and a
  configuration under a name that is not declared.
\<close>

definition cfg_small :: BuilderConfig where
  "cfg_small = \<lparr>cfg_id = 1, cfg_name = ''small'', cfg_version = None,
                 cfg_supported_versions = [], cfg_description = None\<rparr>"

definition cfg_large :: BuilderConfig where
  "cfg_large = \<lparr>cfg_id = 2, cfg_name = ''large'', cfg_version = None,
                 cfg_supported_versions = [], cfg_description = None\<rparr>"

definition cfg_small_copy :: BuilderConfig where
  "cfg_small_copy = cfg_small\<lparr>cfg_id := 7\<rparr>"

definition cfg_custom :: BuilderConfig where
  "cfg_custom = \<lparr>cfg_id = 8, cfg_name = ''custom'', cfg_version = None,
                  cfg_supported_versions = [], cfg_description = None\<rparr>"

definition configured_builder :: builder where
  "configured_builder = scenario_builder\<lparr>BUILDER_CONFIGS := [cfg_small, cfg_large]\<rparr>"

definition unconfigured_builder :: builder where
  "unconfigured_builder = scenario_builder\<lparr>DEFAULT_BUILDER_CONFIG_NAME := Some ''small''\<rparr>"

text \<open>The descriptor message with every field at its default.\<close>

definition default_proto :: proto where
  "default_proto field_name =
     (if field_name \<in> {''release_notes'', ''download_checksums''} then PMap fmempty
      else if field_name = ''splits'' then PSplits []
      else if field_name \<in> {''location'', ''schema'', ''supervised_keys'', ''redistribution_info''}
        then PMsg None
      else if field_name \<in> {''size_in_bytes'', ''download_size''} then PInt 0
      else if field_name = ''disable_shuffling'' then PBool False
      else PStr [])"

text \<open>
  A supported version with a ceiling, a builder resolved to the supported version 0.9.0 and
  one resolved to the version with the ceiling, and the info of a builder before any load.
\<close>

definition v_0_8_0 :: Version where
  "v_0_8_0 = \<lparr>major = 0, minor = 8, patch = 0, tfds_version_to_prepare = Some ''3.2.1''\<rparr>"

definition old_version_builder :: builder where
  "old_version_builder =
     scenario_builder\<lparr>SUPPORTED_VERSIONS := [v_0_9_0, v_0_8_0], version := v_0_9_0,
                      data_dir := ''/data/ds/0.9.0''\<rparr>"

definition ceiling_builder :: builder where
  "ceiling_builder =
     scenario_builder\<lparr>SUPPORTED_VERSIONS := [v_0_9_0, v_0_8_0], version := v_0_8_0,
                      data_dir := ''/data/ds/0.8.0''\<rparr>"

definition example_info :: "Version \<Rightarrow> string \<Rightarrow> DatasetInfo" where
  "example_info v dir =
     \<lparr>identity = \<lparr>id_name = ''ds'', id_version = v, id_data_dir = dir,
                   id_module_name = ''datasets.ds'', id_config_name = None,
                   id_config_description = None, id_release_notes = None\<rparr>,
      info_proto = default_proto(''name'' := PStr ''ds'', ''version'' := PStr (str_version v),
                                 ''module_name'' := PStr ''datasets.ds''),
      splits = [], fully_initialized = False\<rparr>"

text \<open>A platform whose world is the list of the paths that exist.\<close>

definition listing_platform :: "string list platform" where
  "listing_platform =
     \<lparr>gfile_exists = (\<lambda>w p. p \<in> set w), rmtree = (\<lambda>p w. removeAll p w),
      prepare = (\<lambda>w. (None, ''generated'' # w))\<rparr>"

text \<open>The store of the example: two roots, each holding the versions listed.\<close>

definition two_roots_listing :: "string \<Rightarrow> Version list" where
  "two_roots_listing builder_dir =
     (if builder_dir = ''/data/ds'' then [v_0_9_0]
      else if builder_dir = ''/mnt/ds'' then [v_1_0_0, v_0_9_0]
      else [])"

text \<open>
  Splits of the example: the installed \<open>train\<close> and \<open>test\<close> carry statistics; the incoming
  \<open>train\<close> has the same shard lengths, the incoming \<open>test\<close> has others, and \<open>merged\<close> is a
  multi-split.
\<close>

definition split_of :: "string \<Rightarrow> nat list \<Rightarrow> string \<Rightarrow> SplitInfo" where
  "split_of nm lengths stats =
     \<lparr>split_name = nm, shard_lengths = lengths, num_bytes = 1024, statistics = stats,
      filename_template = None\<rparr>"

definition installed_info :: DatasetInfo where
  "installed_info =
     (example_info v_1_0_0 ''/data/ds/1.0.0'')
       \<lparr>splits := [(''train'', Single (split_of ''train'' [100, 100] ''train-stats'')),
                   (''test'', Single (split_of ''test'' [50] ''test-stats''))]\<rparr>"

definition incoming_splits :: SplitDict where
  "incoming_splits =
     [(''train'', Single (split_of ''train'' [100, 100] [])),
      (''test'', Single (split_of ''test'' [60] [])),
      (''merged'', Multi ''merged'' [split_of ''a'' [1] [], split_of ''b'' [2] []])]"

text \<open>
  An info whose code declares a description, and the descriptors persisted in two
  directories: one of the same version, with another description, a citation and a split,
  and one of version 0.9.0.
\<close>

definition code_info :: DatasetInfo where
  "code_info =
     (let info = example_info v_1_0_0 ''/data/ds/1.0.0''
      in info\<lparr>info_proto := (info_proto info)(''description'' := PStr ''from code'')\<rparr>)"

definition persisted_proto :: proto where
  "persisted_proto =
     default_proto(''name'' := PStr ''ds'', ''version'' := PStr ''1.0.0'',
                   ''description'' := PStr ''from disk'', ''citation'' := PStr ''cite'',
                   ''splits'' := PSplits [split_of ''train'' [100, 100] ''train-stats''])"

definition persisted_descriptors :: "string \<Rightarrow> proto option" where
  "persisted_descriptors dir =
     (if dir = ''/data/ds/1.0.0'' then Some persisted_proto
      else if dir = ''/data/ds/0.9.0''
        then Some (persisted_proto(''version'' := PStr ''0.9.0''))
      else None)"

section \<open>Verified properties\<close>

subsection \<open>Version resolution\<close>

lemma py_max_mem: "py_max m xs \<in> set (m # xs)"
  by (induction xs arbitrary: m) auto

lemma py_max_ge_acc: "version_tuple m \<le> version_tuple (py_max m xs)"
proof (induction xs arbitrary: m)
  case Nil
  show ?case by simp
next
  case (Cons x xs)
  have "version_tuple m \<le> version_tuple (if version_gt x m then x else m)"
    by (simp add: version_gt_def less_imp_le)
  also have "\<dots> \<le> version_tuple (py_max (if version_gt x m then x else m) xs)"
    by (rule Cons.IH)
  finally show ?case by simp
qed

lemma py_max_upper: "v \<in> set (m # xs) \<Longrightarrow> version_tuple v \<le> version_tuple (py_max m xs)"
proof (induction xs arbitrary: m)
  case Nil
  then show ?case by simp
next
  case (Cons x xs)
  let ?m' = "if version_gt x m then x else m"
  have step: "version_tuple m \<le> version_tuple ?m'" "version_tuple x \<le> version_tuple ?m'"
    by (simp_all add: version_gt_def less_imp_le not_less)
  from Cons.prems consider "v = m" | "v = x" | "v \<in> set xs" by auto
  then show ?case
  proof cases
    case 1
    with step(1) py_max_ge_acc [of ?m' xs] show ?thesis by simp
  next
    case 2
    with step(2) py_max_ge_acc [of ?m' xs] show ?thesis by simp
  next
    case 3
    then have "v \<in> set (?m' # xs)" by simp
    from Cons.IH [OF this] show ?thesis by simp
  qed
qed

lemma first_match_index:
  "i < length vs \<Longrightarrow> specifier_matches r (vs ! i) \<Longrightarrow>
   \<forall>j<i. \<not> specifier_matches r (vs ! j) \<Longrightarrow> first_match r vs = Some (vs ! i)"
proof (induction vs arbitrary: i)
  case Nil
  then show ?case by simp
next
  case (Cons v vs)
  show ?case
  proof (cases i)
    case 0
    with Cons.prems show ?thesis by simp
  next
    case (Suc k)
    with Cons.prems have nv: "\<not> specifier_matches r v" by auto
    from Suc Cons.prems have "k < length vs" "specifier_matches r (vs ! k)" by auto
    moreover from Suc Cons.prems have "\<forall>j<k. \<not> specifier_matches r (vs ! j)" by auto
    ultimately have "first_match r vs = Some (vs ! k)" by (rule Cons.IH)
    with nv Suc show ?thesis by simp
  qed
qed

lemma first_match_none: "(first_match r vs = None) = (\<forall>v\<in>set vs. \<not> specifier_matches r v)"
  by (induction vs) auto

lemma scenario_canonical: "canonical_version scenario_builder = Inr v_1_0_0"
  by (simp add: canonical_version_def cannonical_version_for_config_def scenario_builder_def)

lemma scenario_supported: "supported_versions scenario_builder = [v_0_9_0]"
  by (simp add: supported_versions_def scenario_builder_def)

lemma scenario_match_wildcard:
  "\<not> version_match v_1_0_0 ''0.9.*''" "version_match v_0_9_0 ''0.9.*''"
  by (simp_all add: version_match_def str_to_version_def parse_component_def digit_val_def
        v_1_0_0_def v_0_9_0_def)

lemma scenario_match_2_0_0:
  "\<not> version_match v_1_0_0 ''2.0.0''" "\<not> version_match v_0_9_0 ''2.0.0''"
  by (simp_all add: version_match_def str_to_version_def parse_component_def digit_val_def
        v_1_0_0_def v_0_9_0_def)

lemma scenario_name: "name scenario_builder = ''ds''"
  by (simp add: scenario_builder_def)

lemma scenario_strs: "str_version v_1_0_0 = ''1.0.0''" "str_version v_0_9_0 = ''0.9.0''"
  by (simp_all add: str_version_def v_1_0_0_def v_0_9_0_def str_of_nat.simps)

text \<open>
  Claim C1. With the canonical version \<open>c\<close> resolved, the candidates are \<open>c\<close> followed by
  the supported versions in declared order. Requesting \<open>experimental_latest\<close> returns a
  candidate that no candidate exceeds in the order of versions. Any other request returns
  the first candidate in declared order that matches the specifier; the specifier \<open>None\<close>
  matches every version, so requesting \<open>None\<close> returns the canonical version.
\<close>

theorem pick_version_resolves:
  assumes "canonical_version self = Inr c"
  shows "(requested_str r = Some ''experimental_latest'' \<longrightarrow>
           (\<exists>m. pick_version self r = Inr m \<and> m \<in> set (c # supported_versions self) \<and>
                (\<forall>v \<in> set (c # supported_versions self). version_tuple v \<le> version_tuple m))) \<and>
         (requested_str r \<noteq> Some ''experimental_latest'' \<longrightarrow>
           (\<forall>i < length (c # supported_versions self).
              specifier_matches (requested_str r) ((c # supported_versions self) ! i) \<and>
              (\<forall>j<i. \<not> specifier_matches (requested_str r) ((c # supported_versions self) ! j)) \<longrightarrow>
              pick_version self r = Inr ((c # supported_versions self) ! i))) \<and>
         (\<forall>v. specifier_matches None v) \<and>
         pick_version self ReqNone = Inr c"
proof (intro conjI impI allI)
  assume "requested_str r = Some ''experimental_latest''"
  then have "pick_version self r = Inr (py_max c (supported_versions self))"
    using assms by (simp add: pick_version_def)
  then show "\<exists>m. pick_version self r = Inr m \<and> m \<in> set (c # supported_versions self) \<and>
                (\<forall>v \<in> set (c # supported_versions self). version_tuple v \<le> version_tuple m)"
    using py_max_mem [of c "supported_versions self"] py_max_upper [of _ c "supported_versions self"]
    by blast
next
  fix i
  assume nl: "requested_str r \<noteq> Some ''experimental_latest''"
    and i: "i < length (c # supported_versions self)"
    and m: "specifier_matches (requested_str r) ((c # supported_versions self) ! i) \<and>
              (\<forall>j<i. \<not> specifier_matches (requested_str r) ((c # supported_versions self) ! j))"
  from first_match_index [OF i] m
  have "first_match (requested_str r) (c # supported_versions self) = Some ((c # supported_versions self) ! i)"
    by blast
  with nl assms show "pick_version self r = Inr ((c # supported_versions self) ! i)"
    by (simp add: pick_version_def Let_def del: first_match.simps)
next
  fix v show "specifier_matches None v" by (simp add: specifier_matches_def)
next
  show "pick_version self ReqNone = Inr c"
    using assms by (simp add: pick_version_def specifier_matches_def)
qed

theorem pick_version_resolves_witness:
  "canonical_version scenario_builder = Inr v_1_0_0 \<and>
   pick_version scenario_builder (ReqStr ''0.9.*'') = Inr v_0_9_0 \<and>
   pick_version scenario_builder ReqNone = Inr v_1_0_0 \<and>
   (\<exists>m. pick_version scenario_builder (ReqStr ''experimental_latest'') = Inr m \<and>
        version_tuple v_0_9_0 \<le> version_tuple m)"
proof -
  note c = scenario_canonical
  have m: "specifier_matches (Some ''0.9.*'') v_0_9_0"
          "\<not> specifier_matches (Some ''0.9.*'') v_1_0_0"
    using scenario_match_wildcard by (simp_all add: specifier_matches_def)
  from pick_version_resolves [OF c, of "ReqStr ''0.9.*''"]
  have "\<forall>i<2. specifier_matches (Some ''0.9.*'') ([v_1_0_0, v_0_9_0] ! i) \<and>
              (\<forall>j<i. \<not> specifier_matches (Some ''0.9.*'') ([v_1_0_0, v_0_9_0] ! j)) \<longrightarrow>
              pick_version scenario_builder (ReqStr ''0.9.*'') = Inr ([v_1_0_0, v_0_9_0] ! i)"
    by (simp add: scenario_supported)
  from this [rule_format, of 1] m
  have a: "pick_version scenario_builder (ReqStr ''0.9.*'') = Inr v_0_9_0"
    by simp
  from pick_version_resolves [OF c, of ReqNone]
  have b: "pick_version scenario_builder ReqNone = Inr v_1_0_0" by simp
  from pick_version_resolves [OF c, of "ReqStr ''experimental_latest''"]
  have "\<exists>m. pick_version scenario_builder (ReqStr ''experimental_latest'') = Inr m \<and>
        version_tuple v_0_9_0 \<le> version_tuple m"
    by (auto simp: scenario_supported)
  with a b c show ?thesis by simp
qed

text \<open>
  Claim C4 (as amended). A request other than \<open>experimental_latest\<close> that no candidate
  matches fails with an \<open>AssertionError\<close> whose message lists the candidates as strings
  in their declared order, the canonical version first. In the scenario of the spec
  (canonical 1.0.0, supported [0.9.0], requested 2.0.0) the listing is \<open>1.0.0, 0.9.0\<close>.
\<close>

theorem pick_version_no_match_error:
  assumes "canonical_version self = Inr c"
    and "requested_str r = Some s"
    and "s \<noteq> ''experimental_latest''"
    and "\<forall>v \<in> set (c # supported_versions self). \<not> version_match v s"
  shows "pick_version self r =
           Inl (AssertionError
             (''Dataset '' @ name self @ '' cannot be loaded at version '' @ s @ '', only: '' @
              join_str '', '' (map str_version (c # supported_versions self)) @ ''.''))"
proof -
  from assms(2,4) have "\<forall>v \<in> set (c # supported_versions self). \<not> specifier_matches (requested_str r) v"
    by (simp add: specifier_matches_def)
  then have "first_match (requested_str r) (c # supported_versions self) = None"
    by (simp only: first_match_none)
  with assms(1,2,3) show ?thesis
    by (simp add: pick_version_def Let_def pick_version_msg_def format_requested_def
          del: first_match.simps)
qed

theorem pick_version_no_match_error_witness:
  "canonical_version scenario_builder = Inr v_1_0_0 \<and>
   requested_str (ReqStr ''2.0.0'') = Some ''2.0.0'' \<and>
   ''2.0.0'' \<noteq> ''experimental_latest'' \<and>
   supported_versions scenario_builder = [v_0_9_0] \<and>
   \<not> version_match v_1_0_0 ''2.0.0'' \<and> \<not> version_match v_0_9_0 ''2.0.0'' \<and>
   pick_version scenario_builder (ReqStr ''2.0.0'') =
     Inl (AssertionError ''Dataset ds cannot be loaded at version 2.0.0, only: 1.0.0, 0.9.0.'')"
proof -
  have h: "\<forall>v \<in> set (v_1_0_0 # supported_versions scenario_builder). \<not> version_match v ''2.0.0''"
    using scenario_match_2_0_0 by (simp add: scenario_supported)
  note n = scenario_name
  from pick_version_no_match_error [OF scenario_canonical _ _ h, of "ReqStr ''2.0.0''"]
  have "pick_version scenario_builder (ReqStr ''2.0.0'') =
     Inl (AssertionError ''Dataset ds cannot be loaded at version 2.0.0, only: 1.0.0, 0.9.0.'')"
    by (simp add: scenario_supported scenario_strs n)
  with scenario_match_2_0_0 scenario_supported scenario_canonical show ?thesis by simp
qed

text \<open>
  The listing of the scenario is not the sorted one, \<open>0.9.0, 1.0.0\<close>.
\<close>

theorem pick_version_listing_counterexample:
  "pick_version scenario_builder (ReqStr ''2.0.0'') \<noteq>
     Inl (AssertionError (pick_version_msg ''ds'' (Some ''2.0.0'') [v_0_9_0, v_1_0_0])) \<and>
   pick_version scenario_builder (ReqStr ''2.0.0'') =
     Inl (AssertionError (pick_version_msg ''ds'' (Some ''2.0.0'') [v_1_0_0, v_0_9_0])) \<and>
   map str_version [v_1_0_0, v_0_9_0] \<noteq> [''0.9.0'', ''1.0.0'']"
  using scenario_match_2_0_0
  by (simp add: pick_version_def scenario_canonical scenario_supported specifier_matches_def
        pick_version_msg_def format_requested_def scenario_strs scenario_name)

subsection \<open>The default configuration name\<close>

lemma config_path_parts:
  "truediv (truediv d ''.config'') ''metadata.json'' = d @ [''.config'', ''metadata.json'']"
  "truediv d ''.config/metadata.json'' = d @ [''.config'', ''metadata.json'']"
  by (simp_all add: truediv_def path_parts_def)

lemma tmp_config_path:
  "tmp_file_name uid (d @ [''.config'', ''metadata.json'']) =
     d @ [''.config'', ''.incomplete'' @ uid @ ''.metadata.json'']"
  by (simp add: tmp_file_name_def butlast_append)

lemma files_after_incomplete_file_write:
  "files (incomplete_file_write uid (d @ [''.config'', ''metadata.json'']) content st)
     (d @ [''.config'', ''metadata.json'']) = Some content"
  by (simp add: incomplete_file_write_def Let_def tmp_config_path rename_path_def
        write_text_def)

lemma load_after_save:
  "load_default_config_name d (save_default_config_name uid d s st) = Inr (Some (JStr s))"
  by (simp add: load_default_config_name_def save_default_config_name_def Let_def
        config_path_parts files_after_incomplete_file_write path_exists_def)

text \<open>
  Claim C10. Loading the default configuration name of a directory after saving a name
  there returns that name, whatever the store held before and whatever the temporary name
  was; after two saves the later name is returned; and where the metadata file does not
  exist, loading returns \<open>None\<close> and raises nothing.
\<close>

theorem default_config_name_roundtrip:
  "load_default_config_name d (save_default_config_name uid d s st) = Inr (Some (JStr s)) \<and>
   load_default_config_name d
     (save_default_config_name uid2 d s (save_default_config_name uid1 d s' st)) =
     Inr (Some (JStr s)) \<and>
   (\<not> path_exists st (truediv d ''.config/metadata.json'') \<longrightarrow>
      load_default_config_name d st = Inr None)"
  by (simp add: load_after_save) (simp add: load_default_config_name_def)

theorem default_config_name_roundtrip_witness:
  "\<not> path_exists empty_store (truediv [''/'', ''data'', ''ds''] ''.config/metadata.json'') \<and>
   load_default_config_name [''/'', ''data'', ''ds''] empty_store = Inr None \<and>
   load_default_config_name [''/'', ''data'', ''ds'']
     (save_default_config_name ''0a1b'' [''/'', ''data'', ''ds''] ''small'' empty_store) =
     Inr (Some (JStr ''small''))"
proof -
  have e: "\<not> path_exists empty_store (truediv [''/'', ''data'', ''ds''] ''.config/metadata.json'')"
    by (simp add: path_exists_def empty_store_def)
  from default_config_name_roundtrip [of "[''/'', ''data'', ''ds'']" "''0a1b''" "''small''" empty_store]
  show ?thesis using e by simp
qed

subsection \<open>Builder configuration resolution\<close>

lemma dict_set_fresh: "k \<notin> fst ` set d \<Longrightarrow> dict_set d k v = d @ [(k, v)]"
  by (induction d) auto

lemma fold_dict_set_distinct:
  "distinct (map key xs) \<Longrightarrow> key ` set xs \<inter> fst ` set acc = {} \<Longrightarrow>
   fold (\<lambda>x d. dict_set d (key x) x) xs acc = acc @ map (\<lambda>x. (key x, x)) xs"
proof (induction xs arbitrary: acc)
  case Nil
  then show ?case by simp
next
  case (Cons x xs)
  from Cons.prems have fresh: "key x \<notin> fst ` set acc" by auto
  from Cons.prems have "distinct (map key xs)" by simp
  moreover from Cons.prems have "key ` set xs \<inter> fst ` set (acc @ [(key x, x)]) = {}"
    by auto
  ultimately have "fold (\<lambda>x d. dict_set d (key x) x) xs (acc @ [(key x, x)]) =
                   (acc @ [(key x, x)]) @ map (\<lambda>x. (key x, x)) xs"
    by (rule Cons.IH)
  with fresh show ?case by (simp add: dict_set_fresh)
qed

lemma builder_configs_distinct:
  assumes "distinct (map cfg_name (BUILDER_CONFIGS self))"
  shows "builder_configs self = Inr (map (\<lambda>c. (cfg_name c, c)) (BUILDER_CONFIGS self))"
  using fold_dict_set_distinct [of cfg_name "BUILDER_CONFIGS self" "[]"] assms
  by (simp add: builder_configs_def Let_def)

lemma map_of_declared:
  "distinct (map cfg_name cs) \<Longrightarrow> c \<in> set cs \<Longrightarrow>
   map_of (map (\<lambda>c. (cfg_name c, c)) cs) (cfg_name c) = Some c"
  by (induction cs) (auto simp: rev_image_eqI)

lemma map_of_undeclared:
  "nm \<notin> cfg_name ` set cs \<Longrightarrow> map_of (map (\<lambda>c. (cfg_name c, c)) cs) nm = None"
  by (induction cs) auto

lemma find_declared:
  "distinct (map cfg_name cs) \<Longrightarrow> c \<in> set cs \<Longrightarrow>
   find (\<lambda>x. cfg_name x = cfg_name c) cs = Some c"
  by (induction cs) (auto simp: rev_image_eqI)

lemma find_undeclared:
  "nm \<notin> cfg_name ` set cs \<Longrightarrow> find (\<lambda>x. cfg_name x = nm) cs = None"
  by (induction cs) auto

lemma get_default_config_named:
  "cs \<noteq> [] \<Longrightarrow>
   get_default_config cs (Some n) =
     (case find (\<lambda>c. cfg_name c = n) cs of
        Some c \<Rightarrow> Inr (Some c)
      | None \<Rightarrow> Inl (RuntimeError (''Builder config with name `'' @ n @ ''` not found.'')))"
  by (cases cs) (simp_all add: get_default_config_def)

lemma validate_declared:
  assumes "distinct (map cfg_name (BUILDER_CONFIGS self))"
    and "c \<in> set (BUILDER_CONFIGS self)" and "cfg_name c \<noteq> []"
  shows "validate_builder_config self c lg = (Inr (Some c), lg)"
  using assms
  by (simp add: validate_builder_config_def Let_def builder_configs_distinct map_of_declared)

lemma validate_conflict:
  assumes "distinct (map cfg_name (BUILDER_CONFIGS self))"
    and "c \<in> set (BUILDER_CONFIGS self)" and "cfg_name obj = cfg_name c"
    and "cfg_name c \<noteq> []" and "cfg_id obj \<noteq> cfg_id c"
  shows "validate_builder_config self obj lg =
           (Inl (ValueError
              (''Cannot name a custom BuilderConfig the same as an available '' @
               ''BuilderConfig. Change the name. Available BuilderConfigs: '' @
               repr_list (map cfg_name (BUILDER_CONFIGS self)))), lg)"
  using assms
  by (simp add: validate_builder_config_def Let_def builder_configs_distinct comp_def
        map_of_declared)

lemma validate_custom:
  assumes "distinct (map cfg_name (BUILDER_CONFIGS self))"
    and "cfg_name obj \<noteq> []" and "cfg_name obj \<notin> cfg_name ` set (BUILDER_CONFIGS self)"
  shows "validate_builder_config self obj lg =
           (Inr (Some obj), lg @ [LogWarning (''Using custom data configuration '' @ cfg_name obj)])"
  using assms
  by (simp add: validate_builder_config_def Let_def builder_configs_distinct map_of_undeclared)

text \<open>
  Claim C9 (as amended). For declared configurations with unique, non-empty names:
  \<open>None\<close> resolves to no configuration when none is declared (whatever the default name),
  to the first declared configuration when no default name is set, to the configuration of
  the default name when it is declared, and fails with a \<open>RuntimeError\<close> when
  configurations are declared and the default name is none of theirs. The empty string
  resolves to no configuration; a declared name resolves to its configuration; any other
  non-empty name fails with a \<open>ValueError\<close> listing all declared names. A supplied object
  carrying a declared name without being the registered object fails with the conflict
  error; the registered object itself is accepted; an object with a non-empty name that
  is not declared is accepted as a custom configuration, with a warning.
\<close>

theorem create_builder_config_resolves:
  assumes "distinct (map cfg_name (BUILDER_CONFIGS self))"
    and "\<forall>c \<in> set (BUILDER_CONFIGS self). cfg_name c \<noteq> []"
  shows
    "(BUILDER_CONFIGS self = [] \<longrightarrow> create_builder_config self CfgNone = (Inr None, [])) \<and>
     (\<forall>first rest. BUILDER_CONFIGS self = first # rest \<and> DEFAULT_BUILDER_CONFIG_NAME self = None \<longrightarrow>
        fst (create_builder_config self CfgNone) = Inr (Some first)) \<and>
     (\<forall>c \<in> set (BUILDER_CONFIGS self). DEFAULT_BUILDER_CONFIG_NAME self = Some (cfg_name c) \<longrightarrow>
        fst (create_builder_config self CfgNone) = Inr (Some c)) \<and>
     (\<forall>n. BUILDER_CONFIGS self \<noteq> [] \<and> DEFAULT_BUILDER_CONFIG_NAME self = Some n \<and>
          n \<notin> cfg_name ` set (BUILDER_CONFIGS self) \<longrightarrow>
        create_builder_config self CfgNone =
          (Inl (RuntimeError (''Builder config with name `'' @ n @ ''` not found.'')), [])) \<and>
     create_builder_config self (CfgName []) = (Inr None, []) \<and>
     (\<forall>c \<in> set (BUILDER_CONFIGS self).
        create_builder_config self (CfgName (cfg_name c)) = (Inr (Some c), [])) \<and>
     (\<forall>nm. nm \<noteq> [] \<and> nm \<notin> cfg_name ` set (BUILDER_CONFIGS self) \<longrightarrow>
        create_builder_config self (CfgName nm) =
          (Inl (ValueError (''BuilderConfig '' @ nm @ '' not found. Available: '' @
                            repr_list (map cfg_name (BUILDER_CONFIGS self)))), [])) \<and>
     (\<forall>obj. \<forall>c \<in> set (BUILDER_CONFIGS self).
        cfg_name obj = cfg_name c \<and> cfg_id obj \<noteq> cfg_id c \<longrightarrow>
        create_builder_config self (CfgObject obj) =
          (Inl (ValueError
             (''Cannot name a custom BuilderConfig the same as an available '' @
              ''BuilderConfig. Change the name. Available BuilderConfigs: '' @
              repr_list (map cfg_name (BUILDER_CONFIGS self)))), [])) \<and>
     (\<forall>c \<in> set (BUILDER_CONFIGS self).
        create_builder_config self (CfgObject c) = (Inr (Some c), [])) \<and>
     (\<forall>obj. cfg_name obj \<noteq> [] \<and> cfg_name obj \<notin> cfg_name ` set (BUILDER_CONFIGS self) \<longrightarrow>
        create_builder_config self (CfgObject obj) =
          (Inr (Some obj), [LogWarning (''Using custom data configuration '' @ cfg_name obj)]))"
proof (intro conjI allI ballI impI)
  assume "BUILDER_CONFIGS self = []"
  then show "create_builder_config self CfgNone = (Inr None, [])"
    by (simp add: create_builder_config_def get_default_builder_config_def get_default_config_def)
next
  fix first rest
  assume a: "BUILDER_CONFIGS self = first # rest \<and> DEFAULT_BUILDER_CONFIG_NAME self = None"
  then have "first \<in> set (BUILDER_CONFIGS self)" by simp
  with assms have "validate_builder_config self first lg = (Inr (Some first), lg)" for lg
    by (intro validate_declared) auto
  with a show "fst (create_builder_config self CfgNone) = Inr (Some first)"
    by (simp add: create_builder_config_def get_default_builder_config_def get_default_config_def)
next
  fix c
  assume c: "c \<in> set (BUILDER_CONFIGS self)"
    and d: "DEFAULT_BUILDER_CONFIG_NAME self = Some (cfg_name c)"
  from c have l: "BUILDER_CONFIGS self \<noteq> []" by auto
  from assms c have v: "validate_builder_config self c lg = (Inr (Some c), lg)" for lg
    by (intro validate_declared) auto
  from assms(1) c have "find (\<lambda>x. cfg_name x = cfg_name c) (BUILDER_CONFIGS self) = Some c"
    by (rule find_declared)
  with d v show "fst (create_builder_config self CfgNone) = Inr (Some c)"
    by (simp add: create_builder_config_def get_default_builder_config_def
          get_default_config_named [OF l])
next
  fix n
  assume a: "BUILDER_CONFIGS self \<noteq> [] \<and> DEFAULT_BUILDER_CONFIG_NAME self = Some n \<and>
          n \<notin> cfg_name ` set (BUILDER_CONFIGS self)"
  then have "find (\<lambda>x. cfg_name x = n) (BUILDER_CONFIGS self) = None"
    by (simp add: find_undeclared)
  with a show "create_builder_config self CfgNone =
          (Inl (RuntimeError (''Builder config with name `'' @ n @ ''` not found.'')), [])"
    by (simp add: create_builder_config_def get_default_builder_config_def
          get_default_config_named)
next
  show "create_builder_config self (CfgName []) = (Inr None, [])"
    by (simp add: create_builder_config_def)
next
  fix c
  assume c: "c \<in> set (BUILDER_CONFIGS self)"
  with assms have v: "validate_builder_config self c [] = (Inr (Some c), [])"
    by (intro validate_declared) auto
  from c assms(2) have "cfg_name c \<noteq> []" by blast
  with v c assms(1) show "create_builder_config self (CfgName (cfg_name c)) = (Inr (Some c), [])"
    by (simp add: create_builder_config_def builder_configs_distinct map_of_declared)
next
  fix nm
  assume "nm \<noteq> [] \<and> nm \<notin> cfg_name ` set (BUILDER_CONFIGS self)"
  with assms(1) show "create_builder_config self (CfgName nm) =
          (Inl (ValueError (''BuilderConfig '' @ nm @ '' not found. Available: '' @
                            repr_list (map cfg_name (BUILDER_CONFIGS self)))), [])"
    by (simp add: create_builder_config_def builder_configs_distinct map_of_undeclared comp_def)
next
  fix obj :: BuilderConfig and c
  assume c: "c \<in> set (BUILDER_CONFIGS self)"
    and o: "cfg_name obj = cfg_name c \<and> cfg_id obj \<noteq> cfg_id c"
  from c assms(2) have "cfg_name c \<noteq> []" by blast
  with validate_conflict [OF assms(1) c, of obj "[]"] o
  show "create_builder_config self (CfgObject obj) =
          (Inl (ValueError
             (''Cannot name a custom BuilderConfig the same as an available '' @
              ''BuilderConfig. Change the name. Available BuilderConfigs: '' @
              repr_list (map cfg_name (BUILDER_CONFIGS self)))), [])"
    by (simp add: create_builder_config_def)
next
  fix c
  assume c: "c \<in> set (BUILDER_CONFIGS self)"
  with assms have "validate_builder_config self c [] = (Inr (Some c), [])"
    by (intro validate_declared) auto
  then show "create_builder_config self (CfgObject c) = (Inr (Some c), [])"
    by (simp add: create_builder_config_def)
next
  fix obj :: BuilderConfig
  assume "cfg_name obj \<noteq> [] \<and> cfg_name obj \<notin> cfg_name ` set (BUILDER_CONFIGS self)"
  with validate_custom [OF assms(1), of obj "[]"]
  show "create_builder_config self (CfgObject obj) =
          (Inr (Some obj), [LogWarning (''Using custom data configuration '' @ cfg_name obj)])"
    by (simp add: create_builder_config_def)
qed

lemma configured_builder_simps:
  "BUILDER_CONFIGS configured_builder = [cfg_small, cfg_large]"
  "DEFAULT_BUILDER_CONFIG_NAME configured_builder = None"
  by (simp_all add: configured_builder_def scenario_builder_def)

lemma example_config_names:
  "cfg_name cfg_small = ''small''" "cfg_name cfg_large = ''large''"
  "cfg_name cfg_small_copy = ''small''" "cfg_name cfg_custom = ''custom''"
  "cfg_id cfg_small = 1" "cfg_id cfg_small_copy = 7"
  by (simp_all add: cfg_small_def cfg_large_def cfg_small_copy_def cfg_custom_def)

theorem create_builder_config_resolves_witness:
  "distinct (map cfg_name (BUILDER_CONFIGS configured_builder)) \<and>
   fst (create_builder_config configured_builder CfgNone) = Inr (Some cfg_small) \<and>
   create_builder_config configured_builder (CfgName ''medium'') =
     (Inl (ValueError (''BuilderConfig medium not found. Available: '' @
                       repr_list [''small'', ''large''])), []) \<and>
   create_builder_config configured_builder (CfgObject cfg_small_copy) =
     (Inl (ValueError
        (''Cannot name a custom BuilderConfig the same as an available '' @
         ''BuilderConfig. Change the name. Available BuilderConfigs: '' @
         repr_list [''small'', ''large''])), []) \<and>
   create_builder_config configured_builder (CfgObject cfg_custom) =
     (Inr (Some cfg_custom), [LogWarning ''Using custom data configuration custom''])"
proof -
  have d: "distinct (map cfg_name (BUILDER_CONFIGS configured_builder))"
    by (simp add: configured_builder_simps example_config_names)
  have ne: "\<forall>c \<in> set (BUILDER_CONFIGS configured_builder). cfg_name c \<noteq> []"
    by (simp add: configured_builder_simps example_config_names)
  note T = create_builder_config_resolves [OF d ne]
  from T have "\<forall>first rest. BUILDER_CONFIGS configured_builder = first # rest \<and>
        DEFAULT_BUILDER_CONFIG_NAME configured_builder = None \<longrightarrow>
        fst (create_builder_config configured_builder CfgNone) = Inr (Some first)"
    by (elim conjE) assumption
  from this [rule_format, of cfg_small "[cfg_large]"]
  have p1: "fst (create_builder_config configured_builder CfgNone) = Inr (Some cfg_small)"
    by (simp add: configured_builder_simps)
  from T have "\<forall>nm. nm \<noteq> [] \<and> nm \<notin> cfg_name ` set (BUILDER_CONFIGS configured_builder) \<longrightarrow>
        create_builder_config configured_builder (CfgName nm) =
          (Inl (ValueError (''BuilderConfig '' @ nm @ '' not found. Available: '' @
                            repr_list (map cfg_name (BUILDER_CONFIGS configured_builder)))), [])"
    by (elim conjE) assumption
  from this [rule_format, of "''medium''"]
  have p2: "create_builder_config configured_builder (CfgName ''medium'') =
     (Inl (ValueError (''BuilderConfig medium not found. Available: '' @
                       repr_list [''small'', ''large''])), [])"
    by (simp add: configured_builder_simps example_config_names)
  from T have "\<forall>obj. \<forall>c \<in> set (BUILDER_CONFIGS configured_builder).
        cfg_name obj = cfg_name c \<and> cfg_id obj \<noteq> cfg_id c \<longrightarrow>
        create_builder_config configured_builder (CfgObject obj) =
          (Inl (ValueError
             (''Cannot name a custom BuilderConfig the same as an available '' @
              ''BuilderConfig. Change the name. Available BuilderConfigs: '' @
              repr_list (map cfg_name (BUILDER_CONFIGS configured_builder)))), [])"
    by (elim conjE) assumption
  from this [rule_format, of cfg_small cfg_small_copy]
  have p3: "create_builder_config configured_builder (CfgObject cfg_small_copy) =
     (Inl (ValueError
        (''Cannot name a custom BuilderConfig the same as an available '' @
         ''BuilderConfig. Change the name. Available BuilderConfigs: '' @
         repr_list [''small'', ''large''])), [])"
    by (simp add: configured_builder_simps example_config_names)
  from T have "\<forall>obj. cfg_name obj \<noteq> [] \<and>
        cfg_name obj \<notin> cfg_name ` set (BUILDER_CONFIGS configured_builder) \<longrightarrow>
        create_builder_config configured_builder (CfgObject obj) =
          (Inr (Some obj), [LogWarning (''Using custom data configuration '' @ cfg_name obj)])"
    by (elim conjE) assumption
  from this [rule_format, of cfg_custom]
  have p4: "create_builder_config configured_builder (CfgObject cfg_custom) =
     (Inr (Some cfg_custom), [LogWarning ''Using custom data configuration custom''])"
    by (simp add: configured_builder_simps example_config_names)
  from d p1 p2 p3 p4 show ?thesis by (simp only: simp_thms)
qed

text \<open>
  With no configuration declared, a default name that names no declared configuration
  does not fail; and the empty name, which names no declared configuration, does not fail.
\<close>

theorem create_builder_config_counterexample:
  "BUILDER_CONFIGS unconfigured_builder = [] \<and>
   DEFAULT_BUILDER_CONFIG_NAME unconfigured_builder = Some ''small'' \<and>
   create_builder_config unconfigured_builder CfgNone = (Inr None, []) \<and>
   BUILDER_CONFIGS configured_builder = [cfg_small, cfg_large] \<and>
   create_builder_config configured_builder (CfgName []) = (Inr None, [])"
  by (simp add: create_builder_config_def get_default_builder_config_def get_default_config_def
        unconfigured_builder_def scenario_builder_def configured_builder_simps)

subsection \<open>The checks of \<open>download_and_prepare\<close>\<close>

lemma check_version_to_prepare_cases:
  assumes "canonical_version self = Inr c"
  shows "check_version_to_prepare self info =
           (if truthy (tfds_version_to_prepare (version self)) then
              Some (AssertionError (too_old_msg self (c # supported_versions self)))
            else if str_version (version self) \<notin>
                      {str_version c, str_version (py_max c (supported_versions self))} then
              Some (ValueError (not_installable_msg self info
                (sorted_pair (str_version c) (str_version (py_max c (supported_versions self))))))
            else None)"
  using assms
  by (auto simp: check_version_to_prepare_def versions_def Let_def sorted_pair_def)

text \<open>
  The call when it does not return by the reuse of the dataset: the removal of an existing
  directory under \<open>REUSE_CACHE_IF_EXISTS\<close> comes first, then the check of the version,
  then the check of the existing data, then the generation.
\<close>

lemma download_and_prepare_not_reused:
  assumes "\<not> (gfile_exists pf w (data_dir self) \<and> mode = REUSE_DATASET_IF_EXISTS)"
  shows "download_and_prepare pf self info mode w =
     (if gfile_exists pf w (data_dir self) \<and> mode = REUSE_CACHE_IF_EXISTS then
        (case check_version_to_prepare self info of
           Some e \<Rightarrow>
             (Inl e, rmtree pf (data_dir self) w,
              [LogInfo (''Deleting pre-existing dataset '' @ name self @ '' ('' @
                        data_dir self @ '')'')])
         | None \<Rightarrow>
             (if gfile_exists pf (rmtree pf (data_dir self) w) (data_dir self) then
                (Inl (ValueError (overwrite_msg self)), rmtree pf (data_dir self) w,
                 [LogInfo (''Deleting pre-existing dataset '' @ name self @ '' ('' @
                           data_dir self @ '')'')])
              else
                (case prepare pf (rmtree pf (data_dir self) w) of
                   (Some e, w2) \<Rightarrow>
                     (Inl e, w2,
                      [LogInfo (''Deleting pre-existing dataset '' @ name self @ '' ('' @
                                data_dir self @ '')'')])
                 | (None, w2) \<Rightarrow>
                     (Inr Prepared, w2,
                      [LogInfo (''Deleting pre-existing dataset '' @ name self @ '' ('' @
                                data_dir self @ '')'')]))))
      else
        (case check_version_to_prepare self info of
           Some e \<Rightarrow> (Inl e, w, [])
         | None \<Rightarrow>
             (if gfile_exists pf w (data_dir self) then
                (Inl (ValueError (overwrite_msg self)), w, [])
              else
                (case prepare pf w of
                   (Some e, w2) \<Rightarrow> (Inl e, w2, [])
                 | (None, w2) \<Rightarrow> (Inr Prepared, w2, [])))))"
  using assms by (auto simp: download_and_prepare_def Let_def split: option.split)

lemma download_and_prepare_check_fails:
  assumes "check_version_to_prepare self info = Some e"
    and "\<not> (gfile_exists pf w (data_dir self) \<and> mode = REUSE_DATASET_IF_EXISTS)"
  shows "download_and_prepare pf self info mode w =
           (Inl e,
            if gfile_exists pf w (data_dir self) \<and> mode = REUSE_CACHE_IF_EXISTS
            then rmtree pf (data_dir self) w else w,
            if gfile_exists pf w (data_dir self) \<and> mode = REUSE_CACHE_IF_EXISTS
            then [LogInfo (''Deleting pre-existing dataset '' @ name self @ '' ('' @
                           data_dir self @ '')'')]
            else [])"
  using assms(1) by (simp add: download_and_prepare_not_reused [OF assms(2)])

text \<open>
  Claim C5 (as amended). Unless the data directory exists and the mode is
  \<open>REUSE_DATASET_IF_EXISTS\<close> (the call then returns at once, without any check of the
  version), and after the removal of an existing directory under \<open>REUSE_CACHE_IF_EXISTS\<close>:
  a resolved version with a ceiling fails with the \<open>AssertionError\<close> that names the dataset,
  the version and the ceiling; a version without a ceiling whose string is neither that of
  the canonical version nor that of the maximum candidate fails with the \<open>ValueError\<close>
  whose message ends with the list of the installable versions, the strings of the
  canonical version and of the maximum candidate. In both cases the world is left as it was
  but for that removal, so nothing was generated. The call prepares the dataset, and the
  check lets it pass, only for a version without a ceiling whose string is the canonical
  or the maximum one.
\<close>

theorem download_and_prepare_version_check:
  fixes pf :: "'w platform"
  assumes "canonical_version self = Inr c"
    and "\<not> (gfile_exists pf w (data_dir self) \<and> mode = REUSE_DATASET_IF_EXISTS)"
  defines "w1 \<equiv> (if gfile_exists pf w (data_dir self) \<and> mode = REUSE_CACHE_IF_EXISTS
                   then rmtree pf (data_dir self) w else w)"
    and "lg \<equiv> (if gfile_exists pf w (data_dir self) \<and> mode = REUSE_CACHE_IF_EXISTS
                 then [LogInfo (''Deleting pre-existing dataset '' @ name self @ '' ('' @
                                data_dir self @ '')'')]
                 else [])"
    and "a \<equiv> str_version c"
    and "b \<equiv> str_version (py_max c (supported_versions self))"
  shows
    "(truthy (tfds_version_to_prepare (version self)) \<longrightarrow>
        (\<exists>listing.
           download_and_prepare pf self info mode w =
             (Inl (AssertionError
                (''The version of the dataset you are trying to use ('' @ name self @ '':'' @
                 str_version (version self) @
                 '') can only be generated using TFDS code synced @ '' @
                 the (tfds_version_to_prepare (version self)) @
                 '' or earlier. Either sync to that version of TFDS to first prepare the '' @
                 ''data or use another version of the dataset (available for '' @
                 ''`download_and_prepare`: '' @ listing @ '').'')),
              w1, lg))) \<and>
     (\<not> truthy (tfds_version_to_prepare (version self)) \<and>
      str_version (version self) \<notin> {a, b} \<longrightarrow>
        download_and_prepare pf self info mode w =
          (Inl (ValueError
             (''The version of the dataset you are trying to use ('' @ full_name info @
              '') is too old for this version of TFDS so cannot be generated.'' @
              ''Either sync to a previous version of TFDS to first prepare the '' @
              ''data or use another version of the dataset. '' @
              ''Available for `download_and_prepare`: '' @
              repr_list (if a = b then [a] else if str_less a b then [a, b] else [b, a]))),
           w1, lg)) \<and>
     (fst (download_and_prepare pf self info mode w) = Inr Prepared \<longrightarrow>
        \<not> truthy (tfds_version_to_prepare (version self)) \<and>
        str_version (version self) \<in> {a, b}) \<and>
     ((check_version_to_prepare self info = None) =
        (\<not> truthy (tfds_version_to_prepare (version self)) \<and>
         str_version (version self) \<in> {a, b}))"
proof (intro conjI impI)
  assume t: "truthy (tfds_version_to_prepare (version self))"
  then have "check_version_to_prepare self info =
               Some (AssertionError (too_old_msg self (c # supported_versions self)))"
    by (simp add: check_version_to_prepare_cases [OF assms(1)])
  from download_and_prepare_check_fails [OF this assms(2)]
  have "download_and_prepare pf self info mode w =
          (Inl (AssertionError (too_old_msg self (c # supported_versions self))), w1, lg)"
    by (simp add: w1_def lg_def)
  then show "\<exists>listing.
           download_and_prepare pf self info mode w =
             (Inl (AssertionError
                (''The version of the dataset you are trying to use ('' @ name self @ '':'' @
                 str_version (version self) @
                 '') can only be generated using TFDS code synced @ '' @
                 the (tfds_version_to_prepare (version self)) @
                 '' or earlier. Either sync to that version of TFDS to first prepare the '' @
                 ''data or use another version of the dataset (available for '' @
                 ''`download_and_prepare`: '' @ listing @ '').'')),
              w1, lg)"
    by (intro exI [of _ "join_str '', '' (map str_version
            (filter (\<lambda>v. \<not> truthy (tfds_version_to_prepare v)) (c # supported_versions self)))"])
       (simp add: too_old_msg_def)
next
  assume t: "\<not> truthy (tfds_version_to_prepare (version self)) \<and>
      str_version (version self) \<notin> {a, b}"
  then have "check_version_to_prepare self info =
               Some (ValueError (not_installable_msg self info (sorted_pair a b)))"
    by (simp add: check_version_to_prepare_cases [OF assms(1)] a_def b_def)
  from download_and_prepare_check_fails [OF this assms(2)] t
  show "download_and_prepare pf self info mode w =
          (Inl (ValueError
             (''The version of the dataset you are trying to use ('' @ full_name info @
              '') is too old for this version of TFDS so cannot be generated.'' @
              ''Either sync to a previous version of TFDS to first prepare the '' @
              ''data or use another version of the dataset. '' @
              ''Available for `download_and_prepare`: '' @
              repr_list (if a = b then [a] else if str_less a b then [a, b] else [b, a]))),
           w1, lg)"
    by (simp add: w1_def lg_def not_installable_msg_def sorted_pair_def)
next
  assume p: "fst (download_and_prepare pf self info mode w) = Inr Prepared"
  have "check_version_to_prepare self info = None"
  proof (cases "check_version_to_prepare self info")
    case None
    then show ?thesis .
  next
    case (Some e)
    from download_and_prepare_check_fails [OF this assms(2)] p show ?thesis by simp
  qed
  then show "\<not> truthy (tfds_version_to_prepare (version self))"
    and "str_version (version self) \<in> {a, b}"
    by (simp_all add: check_version_to_prepare_cases [OF assms(1)] a_def b_def split: if_splits)
next
  show "(check_version_to_prepare self info = None) =
        (\<not> truthy (tfds_version_to_prepare (version self)) \<and>
         str_version (version self) \<in> {a, b})"
    by (simp add: check_version_to_prepare_cases [OF assms(1)] a_def b_def)
qed

lemma example_canonical:
  "canonical_version old_version_builder = Inr v_1_0_0"
  "canonical_version ceiling_builder = Inr v_1_0_0"
  by (simp_all add: canonical_version_def cannonical_version_for_config_def
        old_version_builder_def ceiling_builder_def scenario_builder_def)

lemma example_supported:
  "supported_versions old_version_builder = [v_0_9_0, v_0_8_0]"
  "supported_versions ceiling_builder = [v_0_9_0, v_0_8_0]"
  by (simp_all add: supported_versions_def old_version_builder_def ceiling_builder_def
        scenario_builder_def)

lemma example_versions:
  "version old_version_builder = v_0_9_0" "version ceiling_builder = v_0_8_0"
  "version scenario_builder = v_1_0_0"
  "data_dir old_version_builder = ''/data/ds/0.9.0''"
  "data_dir scenario_builder = ''/data/ds/1.0.0''"
  "data_dir ceiling_builder = ''/data/ds/0.8.0''"
  by (simp_all add: old_version_builder_def ceiling_builder_def scenario_builder_def)

lemma example_builder_names:
  "name scenario_builder = ''ds''" "name old_version_builder = ''ds''"
  "name ceiling_builder = ''ds''"
  by (simp_all add: scenario_builder_def old_version_builder_def ceiling_builder_def)

lemma example_truthy:
  "truthy (tfds_version_to_prepare v_0_8_0)" "\<not> truthy (tfds_version_to_prepare v_0_9_0)"
  "\<not> truthy (tfds_version_to_prepare v_1_0_0)"
  "the (tfds_version_to_prepare v_0_8_0) = ''3.2.1''"
  by (simp_all add: truthy_def v_0_8_0_def v_0_9_0_def v_1_0_0_def)

lemma example_max:
  "py_max v_1_0_0 [v_0_9_0, v_0_8_0] = v_1_0_0" "py_max v_1_0_0 [v_0_9_0] = v_1_0_0"
  by (simp_all add: version_gt_def version_tuple_def v_0_8_0_def v_0_9_0_def v_1_0_0_def)

lemma example_str_0_8_0: "str_version v_0_8_0 = ''0.8.0''"
  by (simp add: str_version_def v_0_8_0_def str_of_nat.simps)

lemma example_full_name:
  "full_name (example_info v_0_9_0 ''/data/ds/0.9.0'') = ''ds/0.9.0''"
  "full_name (example_info v_1_0_0 ''/data/ds/1.0.0'') = ''ds/1.0.0''"
  by (simp_all add: full_name_def example_info_def info_name_def info_config_name_def
        info_version_def default_proto_def scenario_strs os_path_join_def)

lemma listing_platform_simps:
  "gfile_exists listing_platform w p = (p \<in> set w)"
  "rmtree listing_platform p w = removeAll p w"
  "prepare listing_platform w = (None, ''generated'' # w)"
  by (simp_all add: listing_platform_def)

theorem download_and_prepare_version_check_witness:
  "canonical_version ceiling_builder = Inr v_1_0_0 \<and>
   truthy (tfds_version_to_prepare (version ceiling_builder)) \<and>
   (\<exists>listing.
      download_and_prepare listing_platform ceiling_builder
        (example_info v_0_8_0 ''/data/ds/0.8.0'') FORCE_REDOWNLOAD [] =
        (Inl (AssertionError
           (''The version of the dataset you are trying to use (ds:0.8.0) can only be '' @
            ''generated using TFDS code synced @ 3.2.1 or earlier. Either sync to that '' @
            ''version of TFDS to first prepare the data or use another version of the '' @
            ''dataset (available for `download_and_prepare`: '' @ listing @ '').'')),
         [], [])) \<and>
   canonical_version old_version_builder = Inr v_1_0_0 \<and>
   str_version (version old_version_builder) = ''0.9.0'' \<and>
   download_and_prepare listing_platform old_version_builder
     (example_info v_0_9_0 ''/data/ds/0.9.0'') REUSE_CACHE_IF_EXISTS [''/data/ds/0.9.0''] =
     (Inl (ValueError
        (''The version of the dataset you are trying to use (ds/0.9.0) is too old for '' @
         ''this version of TFDS so cannot be generated.Either sync to a previous version '' @
         ''of TFDS to first prepare the data or use another version of the dataset. '' @
         ''Available for `download_and_prepare`: '' @ repr_list [''1.0.0''])),
      [], [LogInfo ''Deleting pre-existing dataset ds (/data/ds/0.9.0)''])"
proof -
  have n1: "\<not> (gfile_exists listing_platform [] (data_dir ceiling_builder) \<and>
               FORCE_REDOWNLOAD = REUSE_DATASET_IF_EXISTS)"
    by simp
  have n2: "\<not> (gfile_exists listing_platform [''/data/ds/0.9.0''] (data_dir old_version_builder) \<and>
               REUSE_CACHE_IF_EXISTS = REUSE_DATASET_IF_EXISTS)"
    by simp
  from download_and_prepare_version_check [OF example_canonical(2) n1,
      of "example_info v_0_8_0 ''/data/ds/0.8.0''"]
  have a: "\<exists>listing.
      download_and_prepare listing_platform ceiling_builder
        (example_info v_0_8_0 ''/data/ds/0.8.0'') FORCE_REDOWNLOAD [] =
        (Inl (AssertionError
           (''The version of the dataset you are trying to use (ds:0.8.0) can only be '' @
            ''generated using TFDS code synced @ 3.2.1 or earlier. Either sync to that '' @
            ''version of TFDS to first prepare the data or use another version of the '' @
            ''dataset (available for `download_and_prepare`: '' @ listing @ '').'')),
         [], [])"
    by (simp add: example_versions example_truthy example_builder_names example_str_0_8_0
          listing_platform_simps)
  from download_and_prepare_version_check [OF example_canonical(1) n2,
      of "example_info v_0_9_0 ''/data/ds/0.9.0''"]
  have b: "download_and_prepare listing_platform old_version_builder
     (example_info v_0_9_0 ''/data/ds/0.9.0'') REUSE_CACHE_IF_EXISTS [''/data/ds/0.9.0''] =
     (Inl (ValueError
        (''The version of the dataset you are trying to use (ds/0.9.0) is too old for '' @
         ''this version of TFDS so cannot be generated.Either sync to a previous version '' @
         ''of TFDS to first prepare the data or use another version of the dataset. '' @
         ''Available for `download_and_prepare`: '' @ repr_list [''1.0.0''])),
      [], [LogInfo ''Deleting pre-existing dataset ds (/data/ds/0.9.0)''])"
    by (simp add: example_versions example_truthy example_supported example_max
          scenario_strs example_full_name example_builder_names listing_platform_simps
          del: py_max.simps)
  from a b show ?thesis
    by (simp add: example_canonical example_versions example_truthy scenario_strs)
qed

text \<open>
  A supported version that is neither canonical nor maximal, whose directory exists: with
  \<open>REUSE_DATASET_IF_EXISTS\<close> the call does not fail. And the message for the version with
  a ceiling offers 0.9.0, which the call refuses to generate when it is asked for.
\<close>

theorem download_and_prepare_reuse_counterexample:
  "canonical_version old_version_builder = Inr v_1_0_0 \<and>
   str_version (version old_version_builder) = ''0.9.0'' \<and>
   str_version v_1_0_0 = ''1.0.0'' \<and>
   str_version (py_max v_1_0_0 (supported_versions old_version_builder)) = ''1.0.0'' \<and>
   download_and_prepare listing_platform old_version_builder
     (example_info v_0_9_0 ''/data/ds/0.9.0'') REUSE_DATASET_IF_EXISTS [''/data/ds/0.9.0''] =
     (Inr Reused, [''/data/ds/0.9.0''], [LogInfo ''Reusing dataset ds (/data/ds/0.9.0)'']) \<and>
   download_and_prepare listing_platform ceiling_builder
     (example_info v_0_8_0 ''/data/ds/0.8.0'') FORCE_REDOWNLOAD [] =
     (Inl (AssertionError
        (''The version of the dataset you are trying to use (ds:0.8.0) can only be '' @
         ''generated using TFDS code synced @ 3.2.1 or earlier. Either sync to that '' @
         ''version of TFDS to first prepare the data or use another version of the '' @
         ''dataset (available for `download_and_prepare`: 1.0.0, 0.9.0).'')),
      [], []) \<and>
   download_and_prepare listing_platform old_version_builder
     (example_info v_0_9_0 ''/data/ds/0.9.0'') FORCE_REDOWNLOAD [] =
     (Inl (ValueError
        (''The version of the dataset you are trying to use (ds/0.9.0) is too old for '' @
         ''this version of TFDS so cannot be generated.Either sync to a previous version '' @
         ''of TFDS to first prepare the data or use another version of the dataset. '' @
         ''Available for `download_and_prepare`: '' @ repr_list [''1.0.0''])),
      [], [])"
proof -
  have r: "download_and_prepare listing_platform old_version_builder
     (example_info v_0_9_0 ''/data/ds/0.9.0'') REUSE_DATASET_IF_EXISTS [''/data/ds/0.9.0''] =
     (Inr Reused, [''/data/ds/0.9.0''], [LogInfo ''Reusing dataset ds (/data/ds/0.9.0)''])"
    by (simp add: download_and_prepare_def listing_platform_simps example_versions
          example_builder_names)
  have c1: "check_version_to_prepare ceiling_builder (example_info v_0_8_0 ''/data/ds/0.8.0'') =
      Some (AssertionError
        (''The version of the dataset you are trying to use (ds:0.8.0) can only be '' @
         ''generated using TFDS code synced @ 3.2.1 or earlier. Either sync to that '' @
         ''version of TFDS to first prepare the data or use another version of the '' @
         ''dataset (available for `download_and_prepare`: 1.0.0, 0.9.0).''))"
    by (simp add: check_version_to_prepare_cases [OF example_canonical(2)] example_versions
          example_truthy example_supported too_old_msg_def example_builder_names
          example_str_0_8_0 scenario_strs del: py_max.simps)
  have c2: "check_version_to_prepare old_version_builder (example_info v_0_9_0 ''/data/ds/0.9.0'') =
      Some (ValueError
        (''The version of the dataset you are trying to use (ds/0.9.0) is too old for '' @
         ''this version of TFDS so cannot be generated.Either sync to a previous version '' @
         ''of TFDS to first prepare the data or use another version of the dataset. '' @
         ''Available for `download_and_prepare`: '' @ repr_list [''1.0.0'']))"
    by (simp add: check_version_to_prepare_cases [OF example_canonical(1)] example_versions
          example_truthy example_supported example_max scenario_strs sorted_pair_def
          not_installable_msg_def example_full_name del: py_max.simps)
  have n: "\<not> (gfile_exists listing_platform [] d \<and> FORCE_REDOWNLOAD = REUSE_DATASET_IF_EXISTS)"
    for d by simp
  from download_and_prepare_check_fails [OF c1 n] download_and_prepare_check_fails [OF c2 n] r
  show ?thesis
    by (simp add: example_canonical example_versions example_supported example_max
          scenario_strs listing_platform_simps del: py_max.simps)
qed

text \<open>
  Claim C6 (as amended). When the data directory exists: with \<open>REUSE_DATASET_IF_EXISTS\<close>
  the call returns at once and leaves the world as it was. With \<open>FORCE_REDOWNLOAD\<close> the
  version is checked first: its error, if any, is raised and the world is untouched;
  otherwise the error about overwriting an existing dataset is raised and the world is
  untouched. With \<open>REUSE_CACHE_IF_EXISTS\<close> the directory is removed first and the version
  is checked next: its error, if any, is raised in the world after the removal; otherwise,
  if the directory still exists, the error about overwriting is raised in that world, and
  if it exists no longer, the outcome is that of the generation started in that world.
\<close>

theorem download_and_prepare_existing:
  fixes pf :: "'w platform"
  assumes "gfile_exists pf w (data_dir self)"
  defines "overwrite \<equiv>
     ValueError (''Trying to overwrite an existing dataset '' @ name self @ '' at '' @
       data_dir self @ ''. A dataset with the same version '' @ str_version (version self) @
       '' already exists. If the dataset has changed, please update the version number.'')"
    and "deleted \<equiv>
     [LogInfo (''Deleting pre-existing dataset '' @ name self @ '' ('' @ data_dir self @ '')'')]"
  shows
    "(mode = REUSE_DATASET_IF_EXISTS \<longrightarrow>
        download_and_prepare pf self info mode w =
          (Inr Reused, w,
           [LogInfo (''Reusing dataset '' @ name self @ '' ('' @ data_dir self @ '')'')])) \<and>
     (\<forall>e. mode = FORCE_REDOWNLOAD \<and> check_version_to_prepare self info = Some e \<longrightarrow>
        download_and_prepare pf self info mode w = (Inl e, w, [])) \<and>
     (mode = FORCE_REDOWNLOAD \<and> check_version_to_prepare self info = None \<longrightarrow>
        download_and_prepare pf self info mode w = (Inl overwrite, w, [])) \<and>
     (\<forall>e. mode = REUSE_CACHE_IF_EXISTS \<and> check_version_to_prepare self info = Some e \<longrightarrow>
        download_and_prepare pf self info mode w =
          (Inl e, rmtree pf (data_dir self) w, deleted)) \<and>
     (mode = REUSE_CACHE_IF_EXISTS \<and> check_version_to_prepare self info = None \<and>
      gfile_exists pf (rmtree pf (data_dir self) w) (data_dir self) \<longrightarrow>
        download_and_prepare pf self info mode w =
          (Inl overwrite, rmtree pf (data_dir self) w, deleted)) \<and>
     (mode = REUSE_CACHE_IF_EXISTS \<and> check_version_to_prepare self info = None \<and>
      \<not> gfile_exists pf (rmtree pf (data_dir self) w) (data_dir self) \<longrightarrow>
        download_and_prepare pf self info mode w =
          (case prepare pf (rmtree pf (data_dir self) w) of
             (Some e, w2) \<Rightarrow> (Inl e, w2, deleted)
           | (None, w2) \<Rightarrow> (Inr Prepared, w2, deleted)))"
  unfolding overwrite_def deleted_def using assms(1)
  by (auto simp: download_and_prepare_def Let_def overwrite_msg_def)

theorem download_and_prepare_existing_witness:
  "gfile_exists listing_platform [''/data/ds/1.0.0''] (data_dir scenario_builder) \<and>
   check_version_to_prepare scenario_builder (example_info v_1_0_0 ''/data/ds/1.0.0'') = None \<and>
   download_and_prepare listing_platform scenario_builder
     (example_info v_1_0_0 ''/data/ds/1.0.0'') REUSE_DATASET_IF_EXISTS [''/data/ds/1.0.0''] =
     (Inr Reused, [''/data/ds/1.0.0''], [LogInfo ''Reusing dataset ds (/data/ds/1.0.0)'']) \<and>
   download_and_prepare listing_platform scenario_builder
     (example_info v_1_0_0 ''/data/ds/1.0.0'') FORCE_REDOWNLOAD [''/data/ds/1.0.0''] =
     (Inl (ValueError
        (''Trying to overwrite an existing dataset ds at /data/ds/1.0.0. A dataset with '' @
         ''the same version 1.0.0 already exists. If the dataset has changed, please '' @
         ''update the version number.'')),
      [''/data/ds/1.0.0''], []) \<and>
   download_and_prepare listing_platform scenario_builder
     (example_info v_1_0_0 ''/data/ds/1.0.0'') REUSE_CACHE_IF_EXISTS [''/data/ds/1.0.0''] =
     (Inr Prepared, [''generated''],
      [LogInfo ''Deleting pre-existing dataset ds (/data/ds/1.0.0)''])"
proof -
  have e: "gfile_exists listing_platform [''/data/ds/1.0.0''] (data_dir scenario_builder)"
    by (simp add: listing_platform_simps example_versions)
  have c: "check_version_to_prepare scenario_builder (example_info v_1_0_0 ''/data/ds/1.0.0'') = None"
    by (simp add: check_version_to_prepare_cases [OF scenario_canonical] example_versions
          example_truthy scenario_supported example_max del: py_max.simps)
  from download_and_prepare_existing [OF e, of REUSE_DATASET_IF_EXISTS
      "example_info v_1_0_0 ''/data/ds/1.0.0''"]
  have a: "download_and_prepare listing_platform scenario_builder
     (example_info v_1_0_0 ''/data/ds/1.0.0'') REUSE_DATASET_IF_EXISTS [''/data/ds/1.0.0''] =
     (Inr Reused, [''/data/ds/1.0.0''], [LogInfo ''Reusing dataset ds (/data/ds/1.0.0)''])"
    by (simp add: example_builder_names example_versions)
  from download_and_prepare_existing [OF e, of FORCE_REDOWNLOAD
      "example_info v_1_0_0 ''/data/ds/1.0.0''"] c
  have b: "download_and_prepare listing_platform scenario_builder
     (example_info v_1_0_0 ''/data/ds/1.0.0'') FORCE_REDOWNLOAD [''/data/ds/1.0.0''] =
     (Inl (ValueError
        (''Trying to overwrite an existing dataset ds at /data/ds/1.0.0. A dataset with '' @
         ''the same version 1.0.0 already exists. If the dataset has changed, please '' @
         ''update the version number.'')),
      [''/data/ds/1.0.0''], [])"
    by (simp add: example_builder_names example_versions scenario_strs)
  from download_and_prepare_existing [OF e, of REUSE_CACHE_IF_EXISTS
      "example_info v_1_0_0 ''/data/ds/1.0.0''"] c
  have d: "download_and_prepare listing_platform scenario_builder
     (example_info v_1_0_0 ''/data/ds/1.0.0'') REUSE_CACHE_IF_EXISTS [''/data/ds/1.0.0''] =
     (Inr Prepared, [''generated''],
      [LogInfo ''Deleting pre-existing dataset ds (/data/ds/1.0.0)''])"
    by (simp add: example_builder_names example_versions listing_platform_simps)
  from e c a b d show ?thesis by (simp only: simp_thms)
qed

text \<open>
  An existing directory of a version that cannot be generated: with \<open>FORCE_REDOWNLOAD\<close>
  the error is that of the version, not the one about overwriting.
\<close>

theorem download_and_prepare_existing_counterexample:
  "gfile_exists listing_platform [''/data/ds/0.9.0''] (data_dir old_version_builder) \<and>
   download_and_prepare listing_platform old_version_builder
     (example_info v_0_9_0 ''/data/ds/0.9.0'') FORCE_REDOWNLOAD [''/data/ds/0.9.0''] =
     (Inl (ValueError
        (''The version of the dataset you are trying to use (ds/0.9.0) is too old for '' @
         ''this version of TFDS so cannot be generated.Either sync to a previous version '' @
         ''of TFDS to first prepare the data or use another version of the dataset. '' @
         ''Available for `download_and_prepare`: '' @ repr_list [''1.0.0''])),
      [''/data/ds/0.9.0''], []) \<and>
   fst (download_and_prepare listing_platform old_version_builder
          (example_info v_0_9_0 ''/data/ds/0.9.0'') FORCE_REDOWNLOAD [''/data/ds/0.9.0'']) \<noteq>
     Inl (ValueError
        (''Trying to overwrite an existing dataset ds at /data/ds/0.9.0. A dataset with '' @
         ''the same version 0.9.0 already exists. If the dataset has changed, please '' @
         ''update the version number.''))"
proof -
  have c: "check_version_to_prepare old_version_builder (example_info v_0_9_0 ''/data/ds/0.9.0'') =
      Some (ValueError
        (''The version of the dataset you are trying to use (ds/0.9.0) is too old for '' @
         ''this version of TFDS so cannot be generated.Either sync to a previous version '' @
         ''of TFDS to first prepare the data or use another version of the dataset. '' @
         ''Available for `download_and_prepare`: '' @ repr_list [''1.0.0'']))"
    by (simp add: check_version_to_prepare_cases [OF example_canonical(1)] example_versions
          example_truthy example_supported example_max scenario_strs sorted_pair_def
          not_installable_msg_def example_full_name del: py_max.simps)
  have n: "\<not> (gfile_exists listing_platform [''/data/ds/0.9.0''] (data_dir old_version_builder) \<and>
              FORCE_REDOWNLOAD = REUSE_DATASET_IF_EXISTS)"
    by simp
  from download_and_prepare_check_fails [OF c n] show ?thesis
    by (simp add: listing_platform_simps example_versions)
qed

subsection \<open>Locating the data directory\<close>

lemma dict_set_keys: "fst ` set (dict_set d k v) = insert k (fst ` set d)"
  by (induction d k v rule: dict_set.induct) auto

lemma dict_set_keys_distinct:
  "distinct (map fst d) \<Longrightarrow> distinct (map fst (dict_set d k v))"
  by (induction d k v rule: dict_set.induct) (auto simp: dict_set_keys)

lemma dict_set_same_value:
  "\<forall>kv \<in> set d. fst kv = k \<longrightarrow> snd kv = v \<Longrightarrow> set (dict_set d k v) = insert (k, v) (set d)"
  by (induction d k v rule: dict_set.induct) auto

lemma scan_data_dirs_invariant:
  assumes "distinct (map fst rvd)" and "\<forall>kv \<in> set rvd. snd kv = os_path_join (fst kv) vd"
  shows "distinct (map fst (snd (scan_data_dirs lav v bd vd roots (av, rvd)))) \<and>
         set (snd (scan_data_dirs lav v bd vd roots (av, rvd))) =
           set rvd \<union> (\<lambda>r. (r, os_path_join r vd)) `
             {r \<in> set roots. \<exists>w \<in> set (lav (os_path_join r bd)). version_eq v w} \<and>
         fst (scan_data_dirs lav v bd vd roots (av, rvd)) =
           av @ concat (map (\<lambda>r. map version_tuple (lav (os_path_join r bd))) roots)"
  using assms
proof (induction roots arbitrary: av rvd)
  case Nil
  then show ?case by simp
next
  case (Cons r roots)
  let ?found = "\<exists>w \<in> set (lav (os_path_join r bd)). version_eq v w"
  let ?rvd' = "if ?found then dict_set rvd r (os_path_join r vd) else rvd"
  let ?av' = "av @ map version_tuple (lav (os_path_join r bd))"
  have d: "distinct (map fst ?rvd')"
    using Cons.prems(1) by (simp add: dict_set_keys_distinct)
  have s: "set ?rvd' = set rvd \<union> (if ?found then {(r, os_path_join r vd)} else {})"
    using dict_set_same_value [of rvd r "os_path_join r vd"] Cons.prems(2) by auto
  have f: "\<forall>kv \<in> set ?rvd'. snd kv = os_path_join (fst kv) vd"
    using Cons.prems(2) unfolding s by auto
  have step: "scan_data_dirs lav v bd vd (r # roots) (av, rvd) =
              scan_data_dirs lav v bd vd roots (?av', ?rvd')"
    by (simp add: Let_def)
  from Cons.IH [OF d f, of ?av'] show ?case
    unfolding step s by (auto simp: image_iff)
qed

lemma scan_data_dirs_from_empty:
  "distinct (map fst (snd (scan_data_dirs lav v bd vd roots ([], [])))) \<and>
   set (snd (scan_data_dirs lav v bd vd roots ([], []))) =
     (\<lambda>r. (r, os_path_join r vd)) `
       {r \<in> set roots. \<exists>w \<in> set (lav (os_path_join r bd)). version_eq v w} \<and>
   fst (scan_data_dirs lav v bd vd roots ([], [])) =
     concat (map (\<lambda>r. map version_tuple (lav (os_path_join r bd))) roots)"
  using scan_data_dirs_invariant [of "[]" vd lav v bd roots "[]"] by simp

lemma length_requested_version_dirs:
  assumes "distinct (map fst rvd)" and "set rvd = (\<lambda>r. (r, f r)) ` R"
  shows "length rvd = card R"
proof -
  from assms(1) have "distinct rvd" by (rule distinct_map [THEN iffD1, THEN conjunct1])
  then have "length rvd = card (set rvd)" by (simp add: distinct_card)
  also have "\<dots> = card ((\<lambda>r. (r, f r)) ` R)" by (simp add: assms(2))
  also have "\<dots> = card R" by (rule card_image) (simp add: inj_on_def)
  finally show ?thesis .
qed

text \<open>
  Claim C3. Among the configured roots, take those under which the directory of the
  requested version is listed. With more than one such root the locator fails with the
  \<open>ValueError\<close> whose message lists the version directories of exactly these roots and
  asks to resolve the ambiguity by explicitly specifying \<open>data_dir=\<close>; with exactly one it
  returns that root and the version directory under it, and logs nothing; with none it
  returns the default root and the version directory under it, and logs one warning,
  listing the versions found, when some version is listed under some root and nothing
  otherwise.
\<close>

theorem build_data_dir_trichotomy:
  fixes list_all_versions :: "string \<Rightarrow> Version list"
  defines "found \<equiv> (\<lambda>self all_data_dirs.
     {r \<in> set all_data_dirs.
        \<exists>w \<in> set (list_all_versions (os_path_join r (relative_data_dir self False))).
          version_eq (version self) w})"
  shows
    "(1 < card (found self all_data_dirs) \<longrightarrow>
        (\<exists>dirs'. build_data_dir list_all_versions default_data_dir all_data_dirs self =
                   (Inl (ValueError
                      (''Dataset was found in more than one directory: dict_values('' @
                       repr_list (map snd dirs') @
                       ''). Please resolve the ambiguity by explicitly specifying '' @
                       ''`data_dir=`.'')), []) \<and>
                 distinct (map fst dirs') \<and>
                 set dirs' = (\<lambda>r. (r, os_path_join r (relative_data_dir self True))) `
                               found self all_data_dirs)) \<and>
     (\<forall>r. found self all_data_dirs = {r} \<longrightarrow>
        build_data_dir list_all_versions default_data_dir all_data_dirs self =
          (Inr (r, os_path_join r (relative_data_dir self True)), [])) \<and>
     (found self all_data_dirs = {} \<longrightarrow>
        build_data_dir list_all_versions default_data_dir all_data_dirs self =
          (Inr (default_data_dir, os_path_join default_data_dir (relative_data_dir self True)),
           if \<exists>r \<in> set all_data_dirs.
                list_all_versions (os_path_join r (relative_data_dir self False)) \<noteq> []
           then [LogWarning
                   (''Found a different version of the requested dataset:'' @ [CHR 0x0A] @
                    join_str [CHR 0x0A]
                      (map str_version_tuple
                         (sort (remdups (concat (map (\<lambda>r. map version_tuple
                            (list_all_versions (os_path_join r (relative_data_dir self False))))
                            all_data_dirs))))) @
                    [CHR 0x0A] @ ''Using '' @
                    os_path_join default_data_dir (relative_data_dir self True) @
                    '' instead.'')]
           else []))"
proof -
  let ?bd = "relative_data_dir self False"
  let ?vd = "relative_data_dir self True"
  let ?st = "scan_data_dirs list_all_versions (version self) ?bd ?vd all_data_dirs ([], [])"
  let ?R = "found self all_data_dirs"
  from scan_data_dirs_from_empty [of list_all_versions "version self" ?bd ?vd all_data_dirs]
  have d: "distinct (map fst (snd ?st))"
    and s: "set (snd ?st) = (\<lambda>r. (r, os_path_join r ?vd)) ` ?R"
    and a: "fst ?st = concat (map (\<lambda>r. map version_tuple
                (list_all_versions (os_path_join r ?bd))) all_data_dirs)"
    by (simp_all add: found_def)
  have len: "length (snd ?st) = card ?R"
    using d s by (rule length_requested_version_dirs)
  have many: "1 < card ?R \<longrightarrow>
        (\<exists>dirs'. build_data_dir list_all_versions default_data_dir all_data_dirs self =
                   (Inl (ValueError
                      (''Dataset was found in more than one directory: dict_values('' @
                       repr_list (map snd dirs') @
                       ''). Please resolve the ambiguity by explicitly specifying '' @
                       ''`data_dir=`.'')), []) \<and>
                 distinct (map fst dirs') \<and>
                 set dirs' = (\<lambda>r. (r, os_path_join r ?vd)) ` ?R)"
  proof
    assume "1 < card ?R"
    with len have "build_data_dir list_all_versions default_data_dir all_data_dirs self =
                   (Inl (ValueError
                      (''Dataset was found in more than one directory: dict_values('' @
                       repr_list (map snd (snd ?st)) @
                       ''). Please resolve the ambiguity by explicitly specifying '' @
                       ''`data_dir=`.'')), [])"
      by (simp add: build_data_dir_def Let_def ambiguity_msg_def)
    with d s show "\<exists>dirs'. build_data_dir list_all_versions default_data_dir all_data_dirs self =
                   (Inl (ValueError
                      (''Dataset was found in more than one directory: dict_values('' @
                       repr_list (map snd dirs') @
                       ''). Please resolve the ambiguity by explicitly specifying '' @
                       ''`data_dir=`.'')), []) \<and>
                 distinct (map fst dirs') \<and>
                 set dirs' = (\<lambda>r. (r, os_path_join r ?vd)) ` ?R"
      by blast
  qed
  have one: "\<forall>r. ?R = {r} \<longrightarrow>
        build_data_dir list_all_versions default_data_dir all_data_dirs self =
          (Inr (r, os_path_join r ?vd), [])"
  proof (intro allI impI)
    fix r assume r: "?R = {r}"
    with len have l: "length (snd ?st) = 1" by simp
    then obtain x where x: "snd ?st = [x]" by (cases "snd ?st") auto
    with s r have "x = (r, os_path_join r ?vd)" by auto
    with x l show "build_data_dir list_all_versions default_data_dir all_data_dirs self =
          (Inr (r, os_path_join r ?vd), [])"
      by (simp add: build_data_dir_def Let_def)
  qed
  have none: "?R = {} \<longrightarrow>
        build_data_dir list_all_versions default_data_dir all_data_dirs self =
          (Inr (default_data_dir, os_path_join default_data_dir ?vd),
           if \<exists>r \<in> set all_data_dirs. list_all_versions (os_path_join r ?bd) \<noteq> []
           then [LogWarning
                   (''Found a different version of the requested dataset:'' @ [CHR 0x0A] @
                    join_str [CHR 0x0A]
                      (map str_version_tuple
                         (sort (remdups (concat (map (\<lambda>r. map version_tuple
                            (list_all_versions (os_path_join r ?bd))) all_data_dirs))))) @
                    [CHR 0x0A] @ ''Using '' @ os_path_join default_data_dir ?vd @
                    '' instead.'')]
           else [])"
  proof
    assume "?R = {}"
    with len have "snd ?st = []" by simp
    then show "build_data_dir list_all_versions default_data_dir all_data_dirs self =
          (Inr (default_data_dir, os_path_join default_data_dir ?vd),
           if \<exists>r \<in> set all_data_dirs. list_all_versions (os_path_join r ?bd) \<noteq> []
           then [LogWarning
                   (''Found a different version of the requested dataset:'' @ [CHR 0x0A] @
                    join_str [CHR 0x0A]
                      (map str_version_tuple
                         (sort (remdups (concat (map (\<lambda>r. map version_tuple
                            (list_all_versions (os_path_join r ?bd))) all_data_dirs))))) @
                    [CHR 0x0A] @ ''Using '' @ os_path_join default_data_dir ?vd @
                    '' instead.'')]
           else [])"
      by (simp add: build_data_dir_def Let_def a different_version_msg_def)
  qed
  from many one none show ?thesis by blast
qed

lemma example_no_config:
  "builder_config scenario_builder = None" "builder_config old_version_builder = None"
  "builder_config ceiling_builder = None"
  by (simp_all add: scenario_builder_def old_version_builder_def ceiling_builder_def)

lemma example_relative_dirs:
  "relative_data_dir scenario_builder False = ''ds''"
  "relative_data_dir scenario_builder True = ''ds/1.0.0''"
  "relative_data_dir old_version_builder False = ''ds''"
  "relative_data_dir old_version_builder True = ''ds/0.9.0''"
  "relative_data_dir ceiling_builder False = ''ds''"
  "relative_data_dir ceiling_builder True = ''ds/0.8.0''"
  by (simp_all add: relative_data_dir_def example_versions example_builder_names
        example_no_config scenario_strs example_str_0_8_0 os_path_join_def)

lemma example_roots:
  "os_path_join ''/data'' ''ds'' = ''/data/ds''" "os_path_join ''/mnt'' ''ds'' = ''/mnt/ds''"
  "os_path_join ''/mnt'' ''ds/1.0.0'' = ''/mnt/ds/1.0.0''"
  "os_path_join ''/data'' ''ds/0.8.0'' = ''/data/ds/0.8.0''"
  by (simp_all add: os_path_join_def)

lemma example_version_eq:
  "version_eq v_1_0_0 v_1_0_0" "\<not> version_eq v_1_0_0 v_0_9_0" "version_eq v_0_9_0 v_0_9_0"
  "\<not> version_eq v_0_9_0 v_1_0_0" "\<not> version_eq v_0_8_0 v_1_0_0" "\<not> version_eq v_0_8_0 v_0_9_0"
  by (simp_all add: version_eq_def version_tuple_def v_1_0_0_def v_0_9_0_def v_0_8_0_def)

lemma Collect_pair_list:
  "{r \<in> set [a, b]. P r} = (if P a then {a} else {}) \<union> (if P b then {b} else {})"
  by auto

lemma example_listing:
  "two_roots_listing ''/data/ds'' = [v_0_9_0]" "two_roots_listing ''/mnt/ds'' = [v_1_0_0, v_0_9_0]"
  by (simp_all add: two_roots_listing_def)

lemma example_roots_versions:
  "os_path_join ''/data'' ''ds/0.9.0'' = ''/data/ds/0.9.0''"
  "os_path_join ''/mnt'' ''ds/0.9.0'' = ''/mnt/ds/0.9.0''"
  by (simp_all add: os_path_join_def)

lemma example_found_versions:
  "sort (remdups [version_tuple v_0_9_0, version_tuple v_1_0_0, version_tuple v_0_9_0]) =
     [(0, 9, 0), (1, 0, 0)]"
  "str_version_tuple (0, 9, 0) = ''0.9.0''" "str_version_tuple (1, 0, 0) = ''1.0.0''"
  "str_version_tuple (Suc 0, 0, 0) = ''1.0.0''"
  by (simp_all add: version_tuple_def v_0_9_0_def v_1_0_0_def str_version_tuple_def
        str_of_nat.simps)

theorem build_data_dir_trichotomy_witness:
  "build_data_dir two_roots_listing ''/data'' [''/data'', ''/mnt''] scenario_builder =
     (Inr (''/mnt'', ''/mnt/ds/1.0.0''), []) \<and>
   build_data_dir two_roots_listing ''/data'' [''/data'', ''/mnt''] ceiling_builder =
     (Inr (''/data'', ''/data/ds/0.8.0''),
      [LogWarning
         (''Found a different version of the requested dataset:'' @ [CHR 0x0A] @
          ''0.9.0'' @ [CHR 0x0A] @ ''1.0.0'' @ [CHR 0x0A] @
          ''Using /data/ds/0.8.0 instead.'')]) \<and>
   (\<exists>dirs'. build_data_dir two_roots_listing ''/data'' [''/data'', ''/mnt''] old_version_builder =
      (Inl (ValueError
         (''Dataset was found in more than one directory: dict_values('' @
          repr_list (map snd dirs') @
          ''). Please resolve the ambiguity by explicitly specifying `data_dir=`.'')), []) \<and>
      set dirs' = {(''/data'', ''/data/ds/0.9.0''), (''/mnt'', ''/mnt/ds/0.9.0'')}) \<and>
   build_data_dir two_roots_listing ''/data'' [''/data'', ''/mnt''] old_version_builder =
     (Inl (ValueError
        (''Dataset was found in more than one directory: dict_values('' @
         repr_list [''/data/ds/0.9.0'', ''/mnt/ds/0.9.0''] @
         ''). Please resolve the ambiguity by explicitly specifying `data_dir=`.'')), [])"
proof -
  have one: "{r \<in> set [''/data'', ''/mnt''].
        \<exists>w \<in> set (two_roots_listing (os_path_join r (relative_data_dir scenario_builder False))).
          version_eq (version scenario_builder) w} = {''/mnt''}"
    unfolding Collect_pair_list
    by (simp add: example_relative_dirs example_roots example_versions example_version_eq
          example_listing)
  have none: "{r \<in> set [''/data'', ''/mnt''].
        \<exists>w \<in> set (two_roots_listing (os_path_join r (relative_data_dir ceiling_builder False))).
          version_eq (version ceiling_builder) w} = {}"
    unfolding Collect_pair_list
    by (simp add: example_relative_dirs example_roots example_versions example_version_eq
          example_listing)
  have two: "{r \<in> set [''/data'', ''/mnt''].
        \<exists>w \<in> set (two_roots_listing (os_path_join r (relative_data_dir old_version_builder False))).
          version_eq (version old_version_builder) w} = {''/data'', ''/mnt''}"
    unfolding Collect_pair_list
    by (simp add: example_relative_dirs example_roots example_versions example_version_eq
          example_listing insert_commute)
  from build_data_dir_trichotomy [where self = scenario_builder and all_data_dirs = "[''/data'', ''/mnt'']"
      and list_all_versions = two_roots_listing and default_data_dir = "''/data''"]
  have a: "build_data_dir two_roots_listing ''/data'' [''/data'', ''/mnt''] scenario_builder =
     (Inr (''/mnt'', ''/mnt/ds/1.0.0''), [])"
    unfolding one by (simp add: example_relative_dirs example_roots)
  from build_data_dir_trichotomy [where self = ceiling_builder and all_data_dirs = "[''/data'', ''/mnt'']"
      and list_all_versions = two_roots_listing and default_data_dir = "''/data''"]
  have b: "build_data_dir two_roots_listing ''/data'' [''/data'', ''/mnt''] ceiling_builder =
     (Inr (''/data'', ''/data/ds/0.8.0''),
      [LogWarning
         (''Found a different version of the requested dataset:'' @ [CHR 0x0A] @
          ''0.9.0'' @ [CHR 0x0A] @ ''1.0.0'' @ [CHR 0x0A] @
          ''Using /data/ds/0.8.0 instead.'')])"
    unfolding none
    by (simp add: example_relative_dirs example_roots example_listing example_found_versions
          del: remdups.simps sort_key_simps)
  from build_data_dir_trichotomy [where self = old_version_builder and all_data_dirs = "[''/data'', ''/mnt'']"
      and list_all_versions = two_roots_listing and default_data_dir = "''/data''"]
  have c: "\<exists>dirs'. build_data_dir two_roots_listing ''/data'' [''/data'', ''/mnt''] old_version_builder =
      (Inl (ValueError
         (''Dataset was found in more than one directory: dict_values('' @
          repr_list (map snd dirs') @
          ''). Please resolve the ambiguity by explicitly specifying `data_dir=`.'')), []) \<and>
      set dirs' = {(''/data'', ''/data/ds/0.9.0''), (''/mnt'', ''/mnt/ds/0.9.0'')}"
    unfolding two by (simp add: example_relative_dirs example_roots_versions) blast
  have e: "build_data_dir two_roots_listing ''/data'' [''/data'', ''/mnt''] old_version_builder =
     (Inl (ValueError
        (''Dataset was found in more than one directory: dict_values('' @
         repr_list [''/data/ds/0.9.0'', ''/mnt/ds/0.9.0''] @
         ''). Please resolve the ambiguity by explicitly specifying `data_dir=`.'')), [])"
    by (simp add: build_data_dir_def Let_def example_relative_dirs example_roots
          example_roots_versions example_versions example_listing example_version_eq
          ambiguity_msg_def)
  from a b c e show ?thesis by (simp only: simp_thms)
qed

subsection \<open>Statistics across \<open>set_splits\<close>\<close>

lemma make_SplitDict_distinct:
  "distinct (map entry_name es) \<Longrightarrow> make_SplitDict es = map (\<lambda>e. (entry_name e, e)) es"
  using fold_dict_set_distinct [of entry_name es "[]"] by (simp add: make_SplitDict_def)

lemma forward_split_info_fields:
  "split_name (forward_split_info old t si) = split_name si"
  "shard_lengths (forward_split_info old t si) = shard_lengths si"
  "num_bytes (forward_split_info old t si) = num_bytes si"
  by (simp_all add: forward_split_info_def Let_def split: option.split)

lemma forward_split_info_statistics:
  "statistics (forward_split_info old t si) =
     (case map_of old (split_name si) of
        None \<Rightarrow> statistics si
      | Some e \<Rightarrow>
          if statistics si = [] \<and> entry_statistics e \<noteq> [] \<and>
             entry_shard_lengths e = shard_lengths si
          then entry_statistics e else statistics si)"
  by (simp add: forward_split_info_def Let_def split: option.split)

lemma forward_entry_name: "entry_name (forward_entry old t e) = entry_name e"
  by (cases e) (simp_all add: forward_split_info_fields)

lemma set_splits_installed:
  assumes "set_splits self split_dict = Inr self'"
    and "distinct (map fst split_dict)"
    and "\<forall>kv \<in> set split_dict. entry_name (snd kv) = fst kv"
    and "(k, e) \<in> set split_dict"
  shows "\<exists>t. map_of (splits self') k = Some (forward_entry (splits self) t e)"
proof -
  from assms(1) obtain t
    where s: "splits self' =
      make_SplitDict (map (\<lambda>kv. forward_entry (splits self) t (snd kv)) split_dict)"
    by (auto simp: set_splits_def Let_def split: option.splits)
  define new where "new = map (\<lambda>kv. forward_entry (splits self) t (snd kv)) split_dict"
  define installed
    where "installed = map (\<lambda>kv. (fst kv, forward_entry (splits self) t (snd kv))) split_dict"
  have names: "map entry_name new = map fst split_dict"
    unfolding new_def using assms(3) by (simp add: forward_entry_name comp_def)
  with assms(2) have "distinct (map entry_name new)" by simp
  then have "make_SplitDict new = map (\<lambda>e. (entry_name e, e)) new"
    by (rule make_SplitDict_distinct)
  also have "\<dots> = installed"
    unfolding new_def installed_def using assms(3) by (simp add: forward_entry_name comp_def)
  finally have m: "splits self' = installed"
    using s by (simp add: new_def)
  have d: "distinct (map fst installed)"
    unfolding installed_def using assms(2) by (simp add: comp_def)
  from assms(4) have "(k, forward_entry (splits self) t e) \<in> set installed"
    unfolding installed_def by force
  with d have "map_of installed k = Some (forward_entry (splits self) t e)"
    by (rule map_of_is_SomeI)
  with m show ?thesis by auto
qed

text \<open>
  Claim C2. Let \<open>set_splits\<close> install a split dictionary (unique keys, every entry under
  its own name) over the installed one. A multi-split of the new dictionary is installed
  verbatim. A SplitInfo of the new dictionary is installed under its name with its shard
  lengths and byte size; if it carries no statistics while the installed SplitInfo of
  that name carries statistics and has the same sequence of shard lengths, it ends up with
  the installed statistics; if it carries none and the sequences differ, it ends up with
  none, the old statistics being dropped; statistics it carries itself are kept.
\<close>

theorem set_splits_forwards_statistics:
  assumes "set_splits self split_dict = Inr self'"
    and "distinct (map fst split_dict)"
    and "\<forall>kv \<in> set split_dict. entry_name (snd kv) = fst kv"
  shows
    "(\<forall>k nm sis. (k, Multi nm sis) \<in> set split_dict \<longrightarrow>
        map_of (splits self') k = Some (Multi nm sis)) \<and>
     (\<forall>k si. (k, Single si) \<in> set split_dict \<longrightarrow>
        (\<exists>si'. map_of (splits self') k = Some (Single si') \<and>
           split_name si' = split_name si \<and> shard_lengths si' = shard_lengths si \<and>
           num_bytes si' = num_bytes si \<and>
           (\<forall>old. map_of (splits self) k = Some (Single old) \<and> statistics si = [] \<and>
                  statistics old \<noteq> [] \<and> shard_lengths old = shard_lengths si \<longrightarrow>
                statistics si' = statistics old) \<and>
           (\<forall>old. map_of (splits self) k = Some (Single old) \<and> statistics si = [] \<and>
                  shard_lengths old \<noteq> shard_lengths si \<longrightarrow>
                statistics si' = []) \<and>
           (statistics si \<noteq> [] \<longrightarrow> statistics si' = statistics si)))"
proof (intro conjI allI impI)
  fix k nm sis
  assume "(k, Multi nm sis) \<in> set split_dict"
  from set_splits_installed [OF assms this]
  show "map_of (splits self') k = Some (Multi nm sis)" by simp
next
  fix k si
  assume in_dict: "(k, Single si) \<in> set split_dict"
  from set_splits_installed [OF assms this] obtain t
    where m: "map_of (splits self') k = Some (Single (forward_split_info (splits self) t si))"
    by auto
  from assms(3) in_dict have k: "split_name si = k" by force
  show "\<exists>si'. map_of (splits self') k = Some (Single si') \<and>
           split_name si' = split_name si \<and> shard_lengths si' = shard_lengths si \<and>
           num_bytes si' = num_bytes si \<and>
           (\<forall>old. map_of (splits self) k = Some (Single old) \<and> statistics si = [] \<and>
                  statistics old \<noteq> [] \<and> shard_lengths old = shard_lengths si \<longrightarrow>
                statistics si' = statistics old) \<and>
           (\<forall>old. map_of (splits self) k = Some (Single old) \<and> statistics si = [] \<and>
                  shard_lengths old \<noteq> shard_lengths si \<longrightarrow>
                statistics si' = []) \<and>
           (statistics si \<noteq> [] \<longrightarrow> statistics si' = statistics si)"
    using m k
    by (intro exI [of _ "forward_split_info (splits self) t si"])
       (auto simp: forward_split_info_fields forward_split_info_statistics split: option.split)
qed

lemma installed_splits:
  "map_of (splits installed_info) ''train'' =
     Some (Single (split_of ''train'' [100, 100] ''train-stats''))"
  "map_of (splits installed_info) ''test'' = Some (Single (split_of ''test'' [50] ''test-stats''))"
  by (simp_all add: installed_info_def)

lemma split_of_fields:
  "split_name (split_of nm lengths stats) = nm" "shard_lengths (split_of nm lengths stats) = lengths"
  "statistics (split_of nm lengths stats) = stats" "filename_template (split_of nm lengths stats) = None"
  by (simp_all add: split_of_def)

theorem set_splits_forwards_statistics_witness:
  "\<exists>self' train' test'.
     set_splits installed_info incoming_splits = Inr self' \<and>
     map_of (splits self') ''train'' = Some (Single train') \<and>
     statistics train' = ''train-stats'' \<and> shard_lengths train' = [100, 100] \<and>
     map_of (splits self') ''test'' = Some (Single test') \<and>
     statistics test' = [] \<and> shard_lengths test' = [60] \<and>
     map_of (splits self') ''merged'' =
       Some (Multi ''merged'' [split_of ''a'' [1] [], split_of ''b'' [2] []])"
proof -
  have "\<exists>self'. set_splits installed_info incoming_splits = Inr self'"
    by (simp add: set_splits_def incoming_splits_def split_of_fields Let_def)
  then obtain self' where r: "set_splits installed_info incoming_splits = Inr self'" ..
  have d: "distinct (map fst incoming_splits)"
    by (simp add: incoming_splits_def)
  have n: "\<forall>kv \<in> set incoming_splits. entry_name (snd kv) = fst kv"
    by (simp add: incoming_splits_def split_of_fields)
  note T = set_splits_forwards_statistics [OF r d n]
  from T [THEN conjunct1, rule_format, of "''merged''" "''merged''"
            "[split_of ''a'' [1] [], split_of ''b'' [2] []]"]
  have m: "map_of (splits self') ''merged'' =
       Some (Multi ''merged'' [split_of ''a'' [1] [], split_of ''b'' [2] []])"
    by (simp add: incoming_splits_def)
  from T [THEN conjunct2, rule_format, of "''train''" "split_of ''train'' [100, 100] []"]
  obtain train' where tr: "map_of (splits self') ''train'' = Some (Single train')"
      "shard_lengths train' = [100, 100]"
      "\<forall>old. map_of (splits installed_info) ''train'' = Some (Single old) \<and>
             statistics (split_of ''train'' [100, 100] []) = [] \<and>
             statistics old \<noteq> [] \<and>
             shard_lengths old = shard_lengths (split_of ''train'' [100, 100] []) \<longrightarrow>
           statistics train' = statistics old"
    by (auto simp: incoming_splits_def split_of_fields)
  from tr(3) [rule_format, of "split_of ''train'' [100, 100] ''train-stats''"]
  have ts: "statistics train' = ''train-stats''"
    by (simp add: installed_splits split_of_fields)
  from T [THEN conjunct2, rule_format, of "''test''" "split_of ''test'' [60] []"]
  obtain test' where te: "map_of (splits self') ''test'' = Some (Single test')"
      "shard_lengths test' = [60]"
      "\<forall>old. map_of (splits installed_info) ''test'' = Some (Single old) \<and>
             statistics (split_of ''test'' [60] []) = [] \<and>
             shard_lengths old \<noteq> shard_lengths (split_of ''test'' [60] []) \<longrightarrow>
           statistics test' = []"
    by (auto simp: incoming_splits_def split_of_fields)
  from te(3) [rule_format, of "split_of ''test'' [50] ''test-stats''"]
  have es: "statistics test' = []"
    by (simp add: installed_splits split_of_fields)
  from r m tr(1,2) ts te(1,2) es show ?thesis by blast
qed

subsection \<open>Loading a descriptor\<close>

lemma digit_val_nth:
  assumes "n < 10"
  shows "digit_val (''0123456789'' ! n) = Some n"
proof -
  from assms consider "n = 0" | "n = 1" | "n = 2" | "n = 3" | "n = 4" | "n = 5" | "n = 6"
    | "n = 7" | "n = 8" | "n = 9"
    by atomize_elim arith
  then show ?thesis by cases (simp_all add: digit_val_def)
qed

lemma digit_char_mem: "n < 10 \<Longrightarrow> ''0123456789'' ! n \<in> set ''0123456789''"
  by (rule nth_mem) simp

lemma str_of_nat_digits: "set (str_of_nat n) \<subseteq> set ''0123456789''"
proof (induction n rule: str_of_nat.induct)
  case (1 n)
  show ?case
  proof (cases "n < 10")
    case True
    with digit_char_mem [of n] show ?thesis by (subst str_of_nat.simps) simp
  next
    case False
    have "n mod 10 < 10" by simp
    from digit_char_mem [OF this] 1 [OF False] False show ?thesis
      by (subst str_of_nat.simps) simp
  qed
qed

lemma str_of_nat_not_Nil: "str_of_nat n \<noteq> []"
  by (subst str_of_nat.simps) simp

lemma str_of_nat_no_dot: "CHR ''.'' \<notin> set (str_of_nat n)"
  using str_of_nat_digits [of n] by auto

lemma str_of_nat_not_star: "str_of_nat n \<noteq> ''*''"
  using str_of_nat_digits [of n] by auto

lemma nat_of_digits_append:
  "nat_of_digits acc (xs @ ys) =
     (case nat_of_digits acc xs of None \<Rightarrow> None | Some a \<Rightarrow> nat_of_digits a ys)"
  by (induction xs arbitrary: acc) (simp_all split: option.split)

lemma nat_of_digits_str_of_nat:
  "nat_of_digits acc (str_of_nat n) = Some (acc * 10 ^ length (str_of_nat n) + n)"
proof (induction n arbitrary: acc rule: str_of_nat.induct)
  case (1 n)
  show ?case
  proof (cases "n < 10")
    case True
    then show ?thesis
      by (subst (1 2) str_of_nat.simps) (simp add: digit_val_nth)
  next
    case False
    have d: "digit_val (''0123456789'' ! (n mod 10)) = Some (n mod 10)"
      by (rule digit_val_nth) simp
    have "str_of_nat n = str_of_nat (n div 10) @ [''0123456789'' ! (n mod 10)]"
      using False by (subst str_of_nat.simps) simp
    then show ?thesis
      using 1 [OF False] d by (simp add: nat_of_digits_append algebra_simps)
  qed
qed

lemma parse_component_str_of_nat: "parse_component (str_of_nat n) = Some (Num n)"
  using nat_of_digits_str_of_nat [of 0 n]
  by (simp add: parse_component_def str_of_nat_not_Nil str_of_nat_not_star)

lemma split_on_no_sep: "c \<notin> set xs \<Longrightarrow> split_on c xs = [xs]"
  by (induction xs) auto

lemma split_on_sep: "c \<notin> set xs \<Longrightarrow> split_on c (xs @ c # ys) = xs # split_on c ys"
  by (induction xs) auto

lemma str_to_version_str_version:
  "str_to_version (str_version v) = Some (Num (major v), Num (minor v), Num (patch v))"
proof -
  have "split_on CHR ''.'' (str_version v) =
          [str_of_nat (major v), str_of_nat (minor v), str_of_nat (patch v)]"
    by (simp add: str_version_def split_on_sep split_on_no_sep str_of_nat_no_dot)
  then show ?thesis
    by (simp add: str_to_version_def parse_component_str_of_nat)
qed

lemma Version_of_str_str_version:
  "Version_of_str (str_version v) =
     Inr \<lparr>major = major v, minor = minor v, patch = patch v, tfds_version_to_prepare = None\<rparr>"
  by (simp add: Version_of_str_def str_to_version_str_version)

lemma dict_set_subset: "set (dict_set d k v) \<subseteq> insert (k, v) (set d)"
  by (induction d k v rule: dict_set.induct) auto

lemma make_SplitDict_entries: "snd ` set (make_SplitDict es) \<subseteq> set es"
proof -
  have "snd ` set (fold (\<lambda>e d. dict_set d (entry_name e) e) es acc) \<subseteq> set es \<union> snd ` set acc"
    for acc
  proof (induction es arbitrary: acc)
    case Nil
    show ?case by simp
  next
    case (Cons e es)
    have "snd ` set (dict_set acc (entry_name e) e) \<subseteq> insert e (snd ` set acc)"
      using dict_set_subset [of acc "entry_name e" e] by auto
    with Cons [of "dict_set acc (entry_name e) e"] show ?case by auto
  qed
  from this [of "[]"] show ?thesis by (simp add: make_SplitDict_def)
qed

lemma check_dataset_names_None:
  "\<forall>kv \<in> set d. \<forall>si t. snd kv = Single si \<and> filename_template si = Some t \<longrightarrow>
                     tmpl_dataset_name t = ds \<Longrightarrow>
   check_dataset_names ds d = None"
  by (induction ds d rule: check_dataset_names.induct) (auto split: option.split)

lemma check_dataset_names_from_proto:
  "tmpl_dataset_name template = ds \<Longrightarrow>
   check_dataset_names ds (SplitDict_from_proto ss template) = None"
proof (rule check_dataset_names_None, intro ballI allI impI)
  fix kv si t
  assume n: "tmpl_dataset_name template = ds"
    and kv: "kv \<in> set (SplitDict_from_proto ss template)"
    and s: "snd kv = Single si \<and> filename_template si = Some t"
  from kv have "snd kv \<in> snd ` set (SplitDict_from_proto ss template)" by simp
  with make_SplitDict_entries
  have "snd kv \<in> set (map (\<lambda>si. Single (si\<lparr>filename_template :=
                               Some (template\<lparr>tmpl_split := Some (split_name si)\<rparr>)\<rparr>)) ss)"
    unfolding SplitDict_from_proto_def by blast
  with s n show "tmpl_dataset_name t = ds" by auto
qed

lemma set_splits_other_fields:
  "set_splits self d = Inr self' \<Longrightarrow> f \<noteq> ''splits'' \<Longrightarrow> info_proto self' f = info_proto self f"
  by (auto simp: set_splits_def Let_def split: option.splits)

lemma set_splits_succeeds:
  "check_dataset_names (info_name self) d = None \<Longrightarrow> \<exists>self'. set_splits self d = Inr self'"
  by (simp add: set_splits_def Let_def)

lemma MergeFrom_undefined: "\<not> is_defined a \<Longrightarrow> MergeFrom a b = b"
  by (cases a; cases b) simp_all

lemma reconcile_field_other:
  "fst field \<noteq> f \<Longrightarrow> fst (reconcile_field parsed field st) f = fst st f"
  by (simp add: reconcile_field_def Let_def)

lemma reconcile_field_defined:
  "is_defined (fst st f) \<Longrightarrow> fst (reconcile_field parsed field st) f = fst st f"
  by (cases "fst field = f") (auto simp: reconcile_field_def Let_def)

lemma reconcile_field_both_undefined:
  "\<not> is_defined (parsed f) \<Longrightarrow> \<not> is_defined (fst st f) \<Longrightarrow>
   fst (reconcile_field parsed field st) f = fst st f"
  by (cases "fst field = f") (auto simp: reconcile_field_def Let_def)

lemma reconcile_field_adopts:
  "fst field = f \<Longrightarrow> \<not> is_defined (fst st f) \<Longrightarrow> is_defined (parsed f) \<Longrightarrow>
   fst (reconcile_field parsed field st) f = parsed f"
  by (auto simp: reconcile_field_def Let_def MergeFrom_undefined)

lemma fold_reconcile_defined:
  "is_defined (fst st f) \<Longrightarrow> fst (fold (reconcile_field parsed) fs st) f = fst st f"
proof (induction fs arbitrary: st)
  case Nil
  show ?case by simp
next
  case (Cons field fs)
  from Cons.prems have "is_defined (fst (reconcile_field parsed field st) f)"
    by (simp add: reconcile_field_defined)
  from Cons.IH [OF this] Cons.prems show ?case
    by (simp add: reconcile_field_defined)
qed

lemma fold_reconcile_both_undefined:
  "\<not> is_defined (parsed f) \<Longrightarrow> \<not> is_defined (fst st f) \<Longrightarrow>
   fst (fold (reconcile_field parsed) fs st) f = fst st f"
proof (induction fs arbitrary: st)
  case Nil
  show ?case by simp
next
  case (Cons field fs)
  from Cons.prems
  have same: "fst (reconcile_field parsed field st) f = fst st f"
    by (simp add: reconcile_field_both_undefined)
  with Cons.prems have "\<not> is_defined (fst (reconcile_field parsed field st) f)" by simp
  from Cons.IH [OF Cons.prems(1) this] same show ?case by simp
qed

lemma fold_reconcile_adopts:
  "f \<in> fst ` set fs \<Longrightarrow> \<not> is_defined (fst st f) \<Longrightarrow> is_defined (parsed f) \<Longrightarrow>
   fst (fold (reconcile_field parsed) fs st) f = parsed f"
proof (induction fs arbitrary: st)
  case Nil
  then show ?case by simp
next
  case (Cons field fs)
  show ?case
  proof (cases "fst field = f")
    case True
    with Cons.prems have v: "fst (reconcile_field parsed field st) f = parsed f"
      by (simp add: reconcile_field_adopts)
    with Cons.prems(3) have "is_defined (fst (reconcile_field parsed field st) f)" by simp
    from fold_reconcile_defined [OF this, of parsed fs] v show ?thesis by simp
  next
    case False
    with Cons.prems(1) have m: "f \<in> fst ` set fs" by auto
    from False have same: "fst (reconcile_field parsed field st) f = fst st f"
      by (rule reconcile_field_other)
    with Cons.prems(2) have "\<not> is_defined (fst (reconcile_field parsed field st) f)" by simp
    from Cons.IH [OF m this Cons.prems(3)] show ?thesis by simp
  qed
qed

lemma reconcile_field_log_grows:
  "set (snd st) \<subseteq> set (snd (reconcile_field parsed field st))"
  by (auto simp: reconcile_field_def Let_def)

lemma fold_reconcile_log_grows:
  "set (snd st) \<subseteq> set (snd (fold (reconcile_field parsed) fs st))"
proof (induction fs arbitrary: st)
  case Nil
  show ?case by simp
next
  case (Cons field fs)
  from reconcile_field_log_grows [of st parsed field]
    Cons.IH [of "reconcile_field parsed field st"]
  show ?case by auto
qed

lemma fold_reconcile_logs_mismatch:
  "f \<in> fst ` set fs \<Longrightarrow> is_defined (fst st f) \<Longrightarrow> fst st f \<noteq> parsed f \<Longrightarrow>
   mismatch_log f \<in> set (snd (fold (reconcile_field parsed) fs st))"
proof (induction fs arbitrary: st)
  case Nil
  then show ?case by simp
next
  case (Cons field fs)
  show ?case
  proof (cases "fst field = f")
    case True
    with Cons.prems have "mismatch_log f \<in> set (snd (reconcile_field parsed field st))"
      by (simp add: reconcile_field_def Let_def mismatch_log_def)
    with fold_reconcile_log_grows [of "reconcile_field parsed field st" parsed fs]
    show ?thesis by auto
  next
    case False
    with Cons.prems(1) have m: "f \<in> fst ` set fs" by auto
    from False have same: "fst (reconcile_field parsed field st) f = fst st f"
      by (rule reconcile_field_other)
    with Cons.prems have "is_defined (fst (reconcile_field parsed field st) f)"
      and "fst (reconcile_field parsed field st) f \<noteq> parsed f" by simp_all
    from Cons.IH [OF m this] show ?thesis by simp
  qed
qed

lemma read_from_directory_loaded:
  assumes "read_from_json dir = Some parsed"
    and "str_version (info_version self) = proto_str (parsed ''version'')"
    and "identity_from_proto parsed dir = Inr ident"
    and "set_splits (self\<lparr>identity := ident\<rparr>)
           (SplitDict_from_proto (proto_splits (parsed ''splits''))
              \<lparr>tmpl_dataset_name = id_name ident, tmpl_data_dir = id_data_dir ident,
               tmpl_split = None,
               tmpl_filetype_suffix =
                 (if proto_str (parsed ''file_format'') \<noteq> []
                  then proto_str (parsed ''file_format'') else ''tfrecord'')\<rparr>) = Inr self2"
    and "restore_features dir = None"
  shows "read_from_directory read_from_json restore_features self dir =
           (None,
            self2\<lparr>info_proto :=
                     fst (fold (reconcile_field parsed) DatasetInfo_fields
                            (info_proto self2, [LogInfo (''Load dataset info from '' @ dir)])),
                   fully_initialized := True\<rparr>,
            snd (fold (reconcile_field parsed) DatasetInfo_fields
                   (info_proto self2, [LogInfo (''Load dataset info from '' @ dir)])))"
  using assms
  by (simp add: read_from_directory_def Let_def info_name_def info_data_dir_def)

lemma read_from_directory_succeeds:
  assumes "read_from_json dir = Some parsed"
    and "proto_str (parsed ''version'') = str_version (info_version self)"
    and "restore_features dir = None"
  shows "\<exists>self2.
           read_from_directory read_from_json restore_features self dir =
             (None,
              self2\<lparr>info_proto :=
                       fst (fold (reconcile_field parsed) DatasetInfo_fields
                              (info_proto self2, [LogInfo (''Load dataset info from '' @ dir)])),
                     fully_initialized := True\<rparr>,
              snd (fold (reconcile_field parsed) DatasetInfo_fields
                     (info_proto self2, [LogInfo (''Load dataset info from '' @ dir)]))) \<and>
           (\<forall>f. f \<noteq> ''splits'' \<longrightarrow> info_proto self2 f = info_proto self f)"
proof -
  from assms(2) obtain ident where i: "identity_from_proto parsed dir = Inr ident"
    and n: "id_name ident = proto_str (parsed ''name'')"
    by (simp add: identity_from_proto_def Version_of_str_str_version)
  let ?t = "\<lparr>tmpl_dataset_name = id_name ident, tmpl_data_dir = id_data_dir ident,
               tmpl_split = None,
               tmpl_filetype_suffix =
                 (if proto_str (parsed ''file_format'') \<noteq> []
                  then proto_str (parsed ''file_format'') else ''tfrecord'')\<rparr>"
  let ?d = "SplitDict_from_proto (proto_splits (parsed ''splits'')) ?t"
  have "check_dataset_names (info_name (self\<lparr>identity := ident\<rparr>)) ?d = None"
    by (rule check_dataset_names_from_proto) (simp add: info_name_def)
  from set_splits_succeeds [OF this] obtain self2
    where s: "set_splits (self\<lparr>identity := ident\<rparr>) ?d = Inr self2" ..
  from set_splits_other_fields [OF s]
  have o: "\<forall>f. f \<noteq> ''splits'' \<longrightarrow> info_proto self2 f = info_proto self f" by simp
  have "read_from_directory read_from_json restore_features self dir =
           (None,
            self2\<lparr>info_proto :=
                     fst (fold (reconcile_field parsed) DatasetInfo_fields
                            (info_proto self2, [LogInfo (''Load dataset info from '' @ dir)])),
                   fully_initialized := True\<rparr>,
            snd (fold (reconcile_field parsed) DatasetInfo_fields
                   (info_proto self2, [LogInfo (''Load dataset info from '' @ dir)])))"
    using assms(1) assms(2) [symmetric] i s assms(3) by (rule read_from_directory_loaded)
  with o show ?thesis by blast
qed

text \<open>
  Claim C7. When the descriptor of the directory is read, its version is the one of the code
  and the external restoration of features succeeds, \<open>read_from_directory\<close> returns without
  raising, whatever the two descriptors hold, and for every field of the descriptor other
  than the fields of the identity and \<open>splits\<close>: a field defined in the code keeps the
  value of the code, and a differing persisted value is only logged; a field not defined
  in the code and defined in the persisted descriptor takes the persisted value; a field
  defined in neither is unchanged.
\<close>

theorem read_from_directory_reconciles:
  assumes "read_from_json dir = Some parsed"
    and "proto_str (parsed ''version'') = str_version (info_version self)"
    and "restore_features dir = None"
  shows
    "\<exists>self' lg.
       read_from_directory read_from_json restore_features self dir = (None, self', lg) \<and>
       (\<forall>field \<in> set DatasetInfo_fields.
          fst field \<notin> set identity_fields \<and> fst field \<noteq> ''splits'' \<longrightarrow>
          (is_defined (info_proto self (fst field)) \<longrightarrow>
             info_proto self' (fst field) = info_proto self (fst field) \<and>
             (info_proto self (fst field) \<noteq> parsed (fst field) \<longrightarrow>
                mismatch_log (fst field) \<in> set lg)) \<and>
          (\<not> is_defined (info_proto self (fst field)) \<and> is_defined (parsed (fst field)) \<longrightarrow>
             info_proto self' (fst field) = parsed (fst field)) \<and>
          (\<not> is_defined (info_proto self (fst field)) \<and> \<not> is_defined (parsed (fst field)) \<longrightarrow>
             info_proto self' (fst field) = info_proto self (fst field)))"
proof -
  have "\<exists>self2.
           read_from_directory read_from_json restore_features self dir =
             (None,
              self2\<lparr>info_proto :=
                       fst (fold (reconcile_field parsed) DatasetInfo_fields
                              (info_proto self2, [LogInfo (''Load dataset info from '' @ dir)])),
                     fully_initialized := True\<rparr>,
              snd (fold (reconcile_field parsed) DatasetInfo_fields
                     (info_proto self2, [LogInfo (''Load dataset info from '' @ dir)]))) \<and>
           (\<forall>f. f \<noteq> ''splits'' \<longrightarrow> info_proto self2 f = info_proto self f)"
    using assms by (rule read_from_directory_succeeds)
  then obtain self2
    where r: "read_from_directory read_from_json restore_features self dir =
             (None,
              self2\<lparr>info_proto :=
                       fst (fold (reconcile_field parsed) DatasetInfo_fields
                              (info_proto self2, [LogInfo (''Load dataset info from '' @ dir)])),
                     fully_initialized := True\<rparr>,
              snd (fold (reconcile_field parsed) DatasetInfo_fields
                     (info_proto self2, [LogInfo (''Load dataset info from '' @ dir)])))"
      and o: "\<forall>f. f \<noteq> ''splits'' \<longrightarrow> info_proto self2 f = info_proto self f"
    by blast
  let ?st = "(info_proto self2, [LogInfo (''Load dataset info from '' @ dir)])"
  let ?res = "fold (reconcile_field parsed) DatasetInfo_fields ?st"
  have "\<forall>field \<in> set DatasetInfo_fields.
          fst field \<notin> set identity_fields \<and> fst field \<noteq> ''splits'' \<longrightarrow>
          (is_defined (info_proto self (fst field)) \<longrightarrow>
             fst ?res (fst field) = info_proto self (fst field) \<and>
             (info_proto self (fst field) \<noteq> parsed (fst field) \<longrightarrow>
                mismatch_log (fst field) \<in> set (snd ?res))) \<and>
          (\<not> is_defined (info_proto self (fst field)) \<and> is_defined (parsed (fst field)) \<longrightarrow>
             fst ?res (fst field) = parsed (fst field)) \<and>
          (\<not> is_defined (info_proto self (fst field)) \<and> \<not> is_defined (parsed (fst field)) \<longrightarrow>
             fst ?res (fst field) = info_proto self (fst field))"
  proof (intro ballI impI)
    fix field
    assume m: "field \<in> set DatasetInfo_fields"
      and "fst field \<notin> set identity_fields \<and> fst field \<noteq> ''splits''"
    then have same: "fst ?st (fst field) = info_proto self (fst field)"
      using o by simp
    from m have mem: "fst field \<in> fst ` set DatasetInfo_fields" by (rule imageI)
    show "(is_defined (info_proto self (fst field)) \<longrightarrow>
             fst ?res (fst field) = info_proto self (fst field) \<and>
             (info_proto self (fst field) \<noteq> parsed (fst field) \<longrightarrow>
                mismatch_log (fst field) \<in> set (snd ?res))) \<and>
          (\<not> is_defined (info_proto self (fst field)) \<and> is_defined (parsed (fst field)) \<longrightarrow>
             fst ?res (fst field) = parsed (fst field)) \<and>
          (\<not> is_defined (info_proto self (fst field)) \<and> \<not> is_defined (parsed (fst field)) \<longrightarrow>
             fst ?res (fst field) = info_proto self (fst field))"
      using fold_reconcile_defined [of ?st "fst field" parsed DatasetInfo_fields]
        fold_reconcile_logs_mismatch [OF mem, of ?st parsed]
        fold_reconcile_adopts [OF mem, of ?st parsed]
        fold_reconcile_both_undefined [of parsed "fst field" ?st DatasetInfo_fields]
      unfolding same by blast
  qed
  with r show ?thesis by simp
qed

text \<open>
  Claim C8. When the version string of the persisted descriptor is not the string of the
  version of the code, \<open>read_from_directory\<close> raises an \<open>AssertionError\<close> and leaves the info
  as it was: neither the persisted identity nor the persisted splits are adopted. A call
  that raises nothing has read a descriptor whose version string is that of the code.
\<close>

theorem read_from_directory_version_mismatch:
  "(\<forall>parsed. read_from_json dir = Some parsed \<and>
       proto_str (parsed ''version'') \<noteq> str_version (info_version self) \<longrightarrow>
       read_from_directory read_from_json restore_features self dir =
         (Some (AssertionError
            (''The constructed DatasetInfo instance and the restored proto version '' @
             ''do not match. Builder version: '' @ str_version (info_version self) @
             ''. Proto version: '' @ proto_str (parsed ''version''))),
          self, [LogInfo (''Load dataset info from '' @ dir)])) \<and>
   (fst (read_from_directory read_from_json restore_features self dir) = None \<longrightarrow>
      (\<exists>parsed. read_from_json dir = Some parsed \<and>
         proto_str (parsed ''version'') = str_version (info_version self)))"
proof (intro conjI allI impI)
  fix parsed
  assume "read_from_json dir = Some parsed \<and>
       proto_str (parsed ''version'') \<noteq> str_version (info_version self)"
  then show "read_from_directory read_from_json restore_features self dir =
         (Some (AssertionError
            (''The constructed DatasetInfo instance and the restored proto version '' @
             ''do not match. Builder version: '' @ str_version (info_version self) @
             ''. Proto version: '' @ proto_str (parsed ''version''))),
          self, [LogInfo (''Load dataset info from '' @ dir)])"
    by (auto simp: read_from_directory_def Let_def)
next
  assume n: "fst (read_from_directory read_from_json restore_features self dir) = None"
  show "\<exists>parsed. read_from_json dir = Some parsed \<and>
         proto_str (parsed ''version'') = str_version (info_version self)"
  proof (cases "read_from_json dir")
    case None
    with n show ?thesis by (simp add: read_from_directory_def Let_def)
  next
    case (Some parsed)
    show ?thesis
    proof (cases "proto_str (parsed ''version'') = str_version (info_version self)")
      case True
      with Some show ?thesis by simp
    next
      case False
      with Some n show ?thesis by (auto simp: read_from_directory_def Let_def)
    qed
  qed
qed

lemma code_info_fields:
  "info_proto code_info ''description'' = PStr ''from code''"
  "info_proto code_info ''citation'' = PStr []"
  "info_proto code_info ''file_format'' = PStr []"
  "str_version (info_version code_info) = ''1.0.0''"
  by (simp_all add: code_info_def example_info_def default_proto_def Let_def info_version_def
        scenario_strs)

lemma persisted_proto_fields:
  "persisted_proto ''description'' = PStr ''from disk''"
  "persisted_proto ''citation'' = PStr ''cite''"
  "persisted_proto ''file_format'' = PStr []"
  "persisted_proto ''version'' = PStr ''1.0.0''"
  by (simp_all add: persisted_proto_def default_proto_def)

lemma persisted_descriptors_simps:
  "persisted_descriptors ''/data/ds/1.0.0'' = Some persisted_proto"
  "persisted_descriptors ''/data/ds/0.9.0'' = Some (persisted_proto(''version'' := PStr ''0.9.0''))"
  by (simp_all add: persisted_descriptors_def)

lemma reconciled_fields:
  "(''description'', TYPE_STRING) \<in> set DatasetInfo_fields"
  "(''citation'', TYPE_STRING) \<in> set DatasetInfo_fields"
  "(''file_format'', TYPE_STRING) \<in> set DatasetInfo_fields"
  "''description'' \<notin> set identity_fields" "''citation'' \<notin> set identity_fields"
  "''file_format'' \<notin> set identity_fields"
  by (simp_all add: DatasetInfo_fields_def identity_fields_def)

theorem read_from_directory_reconciles_witness:
  "\<exists>self' lg.
     read_from_directory persisted_descriptors (\<lambda>dir. None) code_info ''/data/ds/1.0.0'' =
       (None, self', lg) \<and>
     info_proto self' ''description'' = PStr ''from code'' \<and>
     mismatch_log ''description'' \<in> set lg \<and>
     info_proto self' ''citation'' = PStr ''cite'' \<and>
     info_proto self' ''file_format'' = PStr []"
proof -
  have v: "proto_str (persisted_proto ''version'') = str_version (info_version code_info)"
    by (simp add: persisted_proto_fields code_info_fields)
  have n: "(\<lambda>dir. None :: error option) ''/data/ds/1.0.0'' = None" by simp
  from read_from_directory_reconciles [of persisted_descriptors "''/data/ds/1.0.0''"
      persisted_proto code_info "\<lambda>dir. None", OF persisted_descriptors_simps(1) v n]
  obtain self' lg
    where r: "read_from_directory persisted_descriptors (\<lambda>dir. None) code_info ''/data/ds/1.0.0'' =
       (None, self', lg)"
      and f: "\<forall>field \<in> set DatasetInfo_fields.
          fst field \<notin> set identity_fields \<and> fst field \<noteq> ''splits'' \<longrightarrow>
          (is_defined (info_proto code_info (fst field)) \<longrightarrow>
             info_proto self' (fst field) = info_proto code_info (fst field) \<and>
             (info_proto code_info (fst field) \<noteq> persisted_proto (fst field) \<longrightarrow>
                mismatch_log (fst field) \<in> set lg)) \<and>
          (\<not> is_defined (info_proto code_info (fst field)) \<and>
           is_defined (persisted_proto (fst field)) \<longrightarrow>
             info_proto self' (fst field) = persisted_proto (fst field)) \<and>
          (\<not> is_defined (info_proto code_info (fst field)) \<and>
           \<not> is_defined (persisted_proto (fst field)) \<longrightarrow>
             info_proto self' (fst field) = info_proto code_info (fst field))"
    by blast
  from f [rule_format, OF reconciled_fields(1)]
  have a: "info_proto self' ''description'' = PStr ''from code''"
      "mismatch_log ''description'' \<in> set lg"
    by (simp_all add: reconciled_fields code_info_fields persisted_proto_fields)
  from f [rule_format, OF reconciled_fields(2)]
  have b: "info_proto self' ''citation'' = PStr ''cite''"
    by (simp add: reconciled_fields code_info_fields persisted_proto_fields)
  from f [rule_format, OF reconciled_fields(3)]
  have c: "info_proto self' ''file_format'' = PStr []"
    by (simp add: reconciled_fields code_info_fields persisted_proto_fields)
  from r a b c show ?thesis by blast
qed

theorem read_from_directory_version_mismatch_witness:
  "persisted_descriptors ''/data/ds/0.9.0'' = Some (persisted_proto(''version'' := PStr ''0.9.0'')) \<and>
   str_version (info_version code_info) = ''1.0.0'' \<and>
   read_from_directory persisted_descriptors (\<lambda>dir. None) code_info ''/data/ds/0.9.0'' =
     (Some (AssertionError
        (''The constructed DatasetInfo instance and the restored proto version '' @
         ''do not match. Builder version: 1.0.0. Proto version: 0.9.0'')),
      code_info, [LogInfo ''Load dataset info from /data/ds/0.9.0''])"
proof -
  from read_from_directory_version_mismatch [of persisted_descriptors "''/data/ds/0.9.0''"
      code_info "\<lambda>dir. None", THEN conjunct1, rule_format,
      of "persisted_proto(''version'' := PStr ''0.9.0'')"]
  have "read_from_directory persisted_descriptors (\<lambda>dir. None) code_info ''/data/ds/0.9.0'' =
     (Some (AssertionError
        (''The constructed DatasetInfo instance and the restored proto version '' @
         ''do not match. Builder version: 1.0.0. Proto version: 0.9.0'')),
      code_info, [LogInfo ''Load dataset info from /data/ds/0.9.0''])"
    by (simp add: persisted_descriptors_simps code_info_fields)
  then show ?thesis by (simp add: persisted_descriptors_simps code_info_fields)
qed

end
